theory Spec2Isabelle
  imports Complex_Main "HOL-Library.Char_ord" "HOL-Library.List_Lexorder"
    "HOL-Library.Option_ord"
begin

section \<open>The VizSpec schema (pydantic\_viz\_spec.py)\<close>

text \<open>
  The schema and the engine are the two Python modules of \<^verbatim>\<open>more_stuff.md\<close>:
  \<^verbatim>\<open>pydantic_viz_spec.py\<close> (the strict schema) and \<^verbatim>\<open>viz_engine.py\<close> (parser and
  compiler). Record fields carry a prefix, since a field named \<open>x\<close> or \<open>type\<close> would
  otherwise become a global constant.
\<close>

subsection \<open>Enums\<close>

datatype ChartType =
  CT_line | CT_scatter | CT_bar | CT_histogram | CT_box | CT_heatmap | CT_pie | CT_area

datatype Mode = Mode_lines | Mode_markers | Mode_lines_markers

datatype Orientation = Orientation_v | Orientation_h

datatype BarMode = BarMode_group | BarMode_stack | BarMode_relative

datatype HistNorm = HistNorm_none | HistNorm_percent | HistNorm_probability | HistNorm_density

datatype HoverMode = Hover_x | Hover_y | Hover_closest | Hover_x_unified | Hover_y_unified

datatype LineShape = LineShape_linear | LineShape_spline

fun ChartType_value :: "ChartType \<Rightarrow> string" where
  "ChartType_value CT_line = ''line''"
| "ChartType_value CT_scatter = ''scatter''"
| "ChartType_value CT_bar = ''bar''"
| "ChartType_value CT_histogram = ''histogram''"
| "ChartType_value CT_box = ''box''"
| "ChartType_value CT_heatmap = ''heatmap''"
| "ChartType_value CT_pie = ''pie''"
| "ChartType_value CT_area = ''area''"

fun Mode_value :: "Mode \<Rightarrow> string" where
  "Mode_value Mode_lines = ''lines''"
| "Mode_value Mode_markers = ''markers''"
| "Mode_value Mode_lines_markers = ''lines+markers''"

fun Orientation_value :: "Orientation \<Rightarrow> string" where
  "Orientation_value Orientation_v = ''v''"
| "Orientation_value Orientation_h = ''h''"

fun BarMode_value :: "BarMode \<Rightarrow> string" where
  "BarMode_value BarMode_group = ''group''"
| "BarMode_value BarMode_stack = ''stack''"
| "BarMode_value BarMode_relative = ''relative''"

fun HistNorm_value :: "HistNorm \<Rightarrow> string" where
  "HistNorm_value HistNorm_none = ''none''"
| "HistNorm_value HistNorm_percent = ''percent''"
| "HistNorm_value HistNorm_probability = ''probability''"
| "HistNorm_value HistNorm_density = ''density''"

fun HoverMode_value :: "HoverMode \<Rightarrow> string" where
  "HoverMode_value Hover_x = ''x''"
| "HoverMode_value Hover_y = ''y''"
| "HoverMode_value Hover_closest = ''closest''"
| "HoverMode_value Hover_x_unified = ''x unified''"
| "HoverMode_value Hover_y_unified = ''y unified''"

fun LineShape_value :: "LineShape \<Rightarrow> string" where
  "LineShape_value LineShape_linear = ''linear''"
| "LineShape_value LineShape_spline = ''spline''"

text \<open>
  \<open>Enum(v)\<close>: the member whose value is \<open>v\<close>, found by scanning the members in
  declaration order; no member means \<open>ValueError\<close>.
\<close>

definition enum_of :: "('e \<Rightarrow> string) \<Rightarrow> 'e list \<Rightarrow> string \<Rightarrow> 'e option" where
  "enum_of val members s = find (\<lambda>e. val e = s) members"

definition ChartType_members :: "ChartType list" where
  "ChartType_members =
     [CT_line, CT_scatter, CT_bar, CT_histogram, CT_box, CT_heatmap, CT_pie, CT_area]"

definition Mode_members :: "Mode list" where
  "Mode_members = [Mode_lines, Mode_markers, Mode_lines_markers]"

definition Orientation_members :: "Orientation list" where
  "Orientation_members = [Orientation_v, Orientation_h]"

definition BarMode_members :: "BarMode list" where
  "BarMode_members = [BarMode_group, BarMode_stack, BarMode_relative]"

definition HistNorm_members :: "HistNorm list" where
  "HistNorm_members =
     [HistNorm_none, HistNorm_percent, HistNorm_probability, HistNorm_density]"

definition HoverMode_members :: "HoverMode list" where
  "HoverMode_members = [Hover_x, Hover_y, Hover_closest, Hover_x_unified, Hover_y_unified]"

definition LineShape_members :: "LineShape list" where
  "LineShape_members = [LineShape_linear, LineShape_spline]"

subsection \<open>Validation errors and the outcome of one field\<close>

text \<open>
  A pydantic \<open>ValidationError\<close> is a list of entries, each a location (the path of
  field names, empty for \<open>__root__\<close>) and a message. The messages of the library are
  the first seven constructors; the next nine are the \<open>ValueError\<close>s this schema
  raises; the last is the \<open>ValueError\<close> of pandas for a level name that occurs twice.
\<close>

datatype vmsg =
    FieldRequired | NoneNotAllowed | WrongType | NotEnumMember | LimitViolated
  | WrongConstant | ExtraForbidden
  | YListEmpty | YListDuplicates
  | InvalidColor string string | InvalidColorway string
  | HeatmapRequires "string list" | Y2ForNotInY "string list" | ListYWithSeriesBy
  | HistogramRequires | AreaRequiresLines
  | NameOccursMultipleTimes string

type_synonym verr = "string list \<times> vmsg"

datatype pyexc =
    ValidationError "verr list"
  | ValueError vmsg
  | AttributeError string
  | TypeError string
  | KeyError string
  | IndexError string

text \<open>
  What the input holds for one field, after the library's own coercion to the declared
  Python type: the key is absent (\<open>Missing\<close>), it is \<open>null\<close>/\<open>None\<close> (\<open>Null\<close>), its
  value cannot be coerced to the declared type (\<open>Bad\<close>, e.g. an object where a string is
  declared), or it coerces to \<open>v\<close> (\<open>Val v\<close>). Enum fields hold the string before the
  member lookup; model fields hold the nested raw object.
\<close>

datatype 'a fld = Missing | Null | Bad | Val 'a

definition at_loc :: "string \<Rightarrow> verr list \<Rightarrow> verr list" where
  "at_loc nm es = map (\<lambda>(p, m). (nm # p, m)) es"

text \<open>
  The three ways a field is declared. The result is the errors of the field and its
  entry in \<open>values\<close>: \<open>None\<close> stands for both "no entry" (the field failed) and the
  value \<open>None\<close>, which is what \<open>values.get(...)\<close> returns in either case.
  \<^item> \<open>Optional[T] = default\<close>: an absent key takes the default unvalidated, \<open>null\<close> is
    \<open>None\<close>;
  \<^item> \<open>T\<close> with no default: an absent key is "field required", \<open>null\<close> is not allowed;
  \<^item> \<open>T = default\<close>: an absent key takes the default, \<open>null\<close> is not allowed.
\<close>

fun optional_field ::
  "string \<Rightarrow> 'a option \<Rightarrow> ('r \<Rightarrow> verr list + 'a) \<Rightarrow> 'r fld \<Rightarrow> verr list \<times> 'a option" where
  "optional_field nm dflt validate Missing = ([], dflt)"
| "optional_field nm dflt validate Null = ([], None)"
| "optional_field nm dflt validate Bad = ([([nm], WrongType)], None)"
| "optional_field nm dflt validate (Val v) =
     (case validate v of Inl es \<Rightarrow> (at_loc nm es, None) | Inr a \<Rightarrow> ([], Some a))"

fun required_field ::
  "string \<Rightarrow> ('r \<Rightarrow> verr list + 'a) \<Rightarrow> 'r fld \<Rightarrow> verr list \<times> 'a option" where
  "required_field nm validate Missing = ([([nm], FieldRequired)], None)"
| "required_field nm validate Null = ([([nm], NoneNotAllowed)], None)"
| "required_field nm validate Bad = ([([nm], WrongType)], None)"
| "required_field nm validate (Val v) =
     (case validate v of Inl es \<Rightarrow> (at_loc nm es, None) | Inr a \<Rightarrow> ([], Some a))"

fun default_field ::
  "string \<Rightarrow> 'a \<Rightarrow> ('r \<Rightarrow> verr list + 'a) \<Rightarrow> 'r fld \<Rightarrow> verr list \<times> 'a option" where
  "default_field nm dflt validate Missing = ([], Some dflt)"
| "default_field nm dflt validate Null = ([([nm], NoneNotAllowed)], None)"
| "default_field nm dflt validate Bad = ([([nm], WrongType)], None)"
| "default_field nm dflt validate (Val v) =
     (case validate v of Inl es \<Rightarrow> (at_loc nm es, None) | Inr a \<Rightarrow> ([], Some a))"

definition accept :: "'a \<Rightarrow> verr list + 'a" where
  "accept v = Inr v"

definition enum_member :: "('e \<Rightarrow> string) \<Rightarrow> 'e list \<Rightarrow> string \<Rightarrow> verr list + 'e" where
  "enum_member val members s =
     (case enum_of val members s of None \<Rightarrow> Inl [([], NotEnumMember)] | Some e \<Rightarrow> Inr e)"

text \<open>\<open>Field(..., ge=lo, le=hi)\<close>.\<close>

definition bounded :: "'n::linorder \<Rightarrow> 'n \<Rightarrow> 'n \<Rightarrow> verr list + 'n" where
  "bounded lo hi v = (if lo \<le> v \<and> v \<le> hi then Inr v else Inl [([], LimitViolated)])"

subsection \<open>Small validators\<close>

text \<open>
  \<^verbatim>\<open>_HEX = re.compile(r"^#(?:[0-9a-fA-F]{6}|[0-9a-fA-F]{8})$")\<close>. In Python \<open>$\<close> also
  matches just before a newline that ends the string.
\<close>

definition hex_digit :: "char \<Rightarrow> bool" where
  "hex_digit c = (c \<in> set ''0123456789abcdefABCDEF'')"

definition hex_body :: "string \<Rightarrow> bool" where
  "hex_body h = ((length h = 6 \<or> length h = 8) \<and> list_all hex_digit h)"

definition HEX_match :: "string \<Rightarrow> bool" where
  "HEX_match s =
     (case s of
        [] \<Rightarrow> False
      | c # r \<Rightarrow> c = CHR ''#'' \<and>
          (hex_body r \<or> (r \<noteq> [] \<and> last r = CHR 0x0A \<and> hex_body (butlast r))))"

text \<open>
  \<^verbatim>\<open>return bool(_HEX.match(s)) or isinstance(s, str)\<close>: the argument is a string here
  (the field types are \<open>Dict[str, str]\<close> and \<open>List[str]\<close>), so the second disjunct is
  \<open>True\<close>.
\<close>

definition isinstance_str :: "string \<Rightarrow> bool" where
  "isinstance_str s = True"

definition valid_color :: "string \<Rightarrow> bool" where
  "valid_color s = (HEX_match s \<or> isinstance_str s)"

subsection \<open>Nested leaf models\<close>

record EncodingsSpec =
  e_marker_size :: "int option"
  e_opacity :: "rat option"
  e_line_shape :: "LineShape option"

record raw_EncodingsSpec =
  re_marker_size :: "int fld"
  re_opacity :: "rat fld"
  re_line_shape :: "string fld"

definition validate_EncodingsSpec :: "raw_EncodingsSpec \<Rightarrow> verr list + EncodingsSpec" where
  "validate_EncodingsSpec r =
     (let (e1, ms) = optional_field ''marker_size'' (Some 6) (bounded 1 64) (re_marker_size r);
          (e2, op) = optional_field ''opacity'' (Some (9 / 10)) (bounded 0 1) (re_opacity r);
          (e3, ls) = optional_field ''line_shape'' None
                       (enum_member LineShape_value LineShape_members) (re_line_shape r);
          errors = e1 @ e2 @ e3
      in if errors = [] then Inr \<lparr>e_marker_size = ms, e_opacity = op, e_line_shape = ls\<rparr>
         else Inl errors)"

record SeriesSpec =
  s_by :: "string option"

record raw_SeriesSpec =
  rs_by :: "string fld"

definition validate_SeriesSpec :: "raw_SeriesSpec \<Rightarrow> verr list + SeriesSpec" where
  "validate_SeriesSpec r =
     (let (e1, b) = optional_field ''by'' None accept (rs_by r)
      in if e1 = [] then Inr \<lparr>s_by = b\<rparr> else Inl e1)"

record AxisSpec =
  a_y2_for :: "string list option"
  a_area_stackgroup :: "string option"

record raw_AxisSpec =
  ra_y2_for :: "string list fld"
  ra_area_stackgroup :: "string fld"

definition validate_AxisSpec :: "raw_AxisSpec \<Rightarrow> verr list + AxisSpec" where
  "validate_AxisSpec r =
     (let (e1, y2) = optional_field ''y2_for'' None accept (ra_y2_for r);
          (e2, sg) = optional_field ''area_stackgroup'' None accept (ra_area_stackgroup r);
          errors = e1 @ e2
      in if errors = [] then Inr \<lparr>a_y2_for = y2, a_area_stackgroup = sg\<rparr> else Inl errors)"

text \<open>A \<open>Dict[str, str]\<close> is an association list; a key is looked up with \<open>map_of\<close>.\<close>

type_synonym str_dict = "(string \<times> string) list"

record LabelsSpec =
  l_y :: "str_dict option"
  l_series :: "str_dict option"

record raw_LabelsSpec =
  rl_y :: "str_dict fld"
  rl_series :: "str_dict fld"

definition validate_LabelsSpec :: "raw_LabelsSpec \<Rightarrow> verr list + LabelsSpec" where
  "validate_LabelsSpec r =
     (let (e1, ly) = optional_field ''y'' None accept (rl_y r);
          (e2, lse) = optional_field ''series'' None accept (rl_series r);
          errors = e1 @ e2
      in if errors = [] then Inr \<lparr>l_y = ly, l_series = lse\<rparr> else Inl errors)"

record ColorsSpec =
  c_color_map :: "str_dict option"

record raw_ColorsSpec =
  rc_color_map :: "str_dict fld"

text \<open>
  \<^verbatim>\<open>@validator("color_map")\<close>: an empty map is returned at once; otherwise the first
  entry that is not a valid color raises.
\<close>

fun first_invalid_color :: "str_dict \<Rightarrow> (string \<times> string) option" where
  "first_invalid_color [] = None"
| "first_invalid_color ((k, c) # rest) =
     (if \<not> valid_color c then Some (k, c) else first_invalid_color rest)"

definition validate_colors :: "str_dict \<Rightarrow> verr list + str_dict" where
  "validate_colors v =
     (if v = [] then Inr v
      else case first_invalid_color v of
             Some (k, c) \<Rightarrow> Inl [([], InvalidColor k c)]
           | None \<Rightarrow> Inr v)"

definition validate_ColorsSpec :: "raw_ColorsSpec \<Rightarrow> verr list + ColorsSpec" where
  "validate_ColorsSpec r =
     (let (e1, cm) = optional_field ''color_map'' None validate_colors (rc_color_map r)
      in if e1 = [] then Inr \<lparr>c_color_map = cm\<rparr> else Inl e1)"

subsection \<open>Core sections\<close>

record ChartSpec =
  ch_type :: ChartType
  ch_mode :: "Mode option"
  ch_orientation :: "Orientation option"
  ch_barmode :: "BarMode option"
  ch_histnorm :: "HistNorm option"

record raw_ChartSpec =
  rch_type :: "string fld"
  rch_mode :: "string fld"
  rch_orientation :: "string fld"
  rch_barmode :: "string fld"
  rch_histnorm :: "string fld"

text \<open>
  The \<open>values\<close> dictionary a root validator receives: the fields that passed, a failed
  field having no entry (\<open>None\<close> under \<open>values.get\<close>).
\<close>

record chart_values =
  cv_type :: "ChartType option"
  cv_mode :: "Mode option"
  cv_orientation :: "Orientation option"
  cv_barmode :: "BarMode option"
  cv_histnorm :: "HistNorm option"

definition defaults_and_semantics :: "chart_values \<Rightarrow> chart_values" where
  "defaults_and_semantics values0 =
     (let t = cv_type values0;
          mode = cv_mode values0;
          values1 = (if (t = Some CT_line \<or> t = Some CT_area) \<and> mode = None
                     then values0\<lparr>cv_mode := Some Mode_lines\<rparr> else values0);
          values2 = (if t \<noteq> Some CT_bar then values1\<lparr>cv_orientation := None\<rparr> else values1);
          values3 = (if t \<noteq> Some CT_histogram then values2\<lparr>cv_histnorm := None\<rparr> else values2)
      in values3)"

definition validate_ChartSpec :: "raw_ChartSpec \<Rightarrow> verr list + ChartSpec" where
  "validate_ChartSpec r =
     (let (e1, t) = required_field ''type'' (enum_member ChartType_value ChartType_members)
                      (rch_type r);
          (e2, m) = optional_field ''mode'' None (enum_member Mode_value Mode_members)
                      (rch_mode r);
          (e3, orient) = optional_field ''orientation'' None
                      (enum_member Orientation_value Orientation_members) (rch_orientation r);
          (e4, bm) = optional_field ''barmode'' None
                      (enum_member BarMode_value BarMode_members) (rch_barmode r);
          (e5, hn) = optional_field ''histnorm'' None
                      (enum_member HistNorm_value HistNorm_members) (rch_histnorm r);
          errors = e1 @ e2 @ e3 @ e4 @ e5;
          values = defaults_and_semantics
                     \<lparr>cv_type = t, cv_mode = m, cv_orientation = orient, cv_barmode = bm,
                      cv_histnorm = hn\<rparr>
      in case (errors, cv_type values) of
           ([], Some ty) \<Rightarrow>
             Inr \<lparr>ch_type = ty, ch_mode = cv_mode values,
                  ch_orientation = cv_orientation values, ch_barmode = cv_barmode values,
                  ch_histnorm = cv_histnorm values\<rparr>
         | _ \<Rightarrow> Inl errors)"

text \<open>\<open>y: Optional[Union[str, List[str]]]\<close>.\<close>

datatype yspec = YStr string | YList "string list"

record DataSpec =
  d_frame_name :: "string option"
  d_x :: "string option"
  d_y :: "yspec option"
  d_z :: "string option"
  d_text :: "string option"
  d_name :: "string option"
  d_series :: "SeriesSpec option"
  d_axis :: "AxisSpec option"
  d_encodings :: "EncodingsSpec option"
  d_labels :: "LabelsSpec option"
  d_colors :: "ColorsSpec option"

record raw_DataSpec =
  rd_frame_name :: "string fld"
  rd_x :: "string fld"
  rd_y :: "yspec fld"
  rd_z :: "string fld"
  rd_text :: "string fld"
  rd_name :: "string fld"
  rd_series :: "raw_SeriesSpec fld"
  rd_axis :: "raw_AxisSpec fld"
  rd_encodings :: "raw_EncodingsSpec fld"
  rd_labels :: "raw_LabelsSpec fld"
  rd_colors :: "raw_ColorsSpec fld"

text \<open>\<^verbatim>\<open>@validator("y")\<close>; \<open>len(set(v)) != len(v)\<close> is \<open>remdups\<close> shortening the list.\<close>

definition unique_y_list :: "yspec \<Rightarrow> verr list + yspec" where
  "unique_y_list v =
     (case v of
        YList l \<Rightarrow>
          if l = [] then Inl [([], YListEmpty)]
          else if length (remdups l) \<noteq> length l then Inl [([], YListDuplicates)]
          else Inr v
      | YStr s \<Rightarrow> Inr v)"

definition validate_DataSpec :: "raw_DataSpec \<Rightarrow> verr list + DataSpec" where
  "validate_DataSpec r =
     (let (e1, fnm) = optional_field ''frame_name'' None accept (rd_frame_name r);
          (e2, x) = optional_field ''x'' None accept (rd_x r);
          (e3, y) = optional_field ''y'' None unique_y_list (rd_y r);
          (e4, z) = optional_field ''z'' None accept (rd_z r);
          (e5, txt) = optional_field ''text'' None accept (rd_text r);
          (e6, nm) = optional_field ''name'' None accept (rd_name r);
          (e7, ser) = optional_field ''series'' None validate_SeriesSpec (rd_series r);
          (e8, ax) = optional_field ''axis'' None validate_AxisSpec (rd_axis r);
          (e9, enc) = optional_field ''encodings'' None validate_EncodingsSpec (rd_encodings r);
          (e10, lab) = optional_field ''labels'' None validate_LabelsSpec (rd_labels r);
          (e11, col) = optional_field ''colors'' None validate_ColorsSpec (rd_colors r);
          errors = e1 @ e2 @ e3 @ e4 @ e5 @ e6 @ e7 @ e8 @ e9 @ e10 @ e11
      in if errors = []
         then Inr \<lparr>d_frame_name = fnm, d_x = x, d_y = y, d_z = z, d_text = txt, d_name = nm,
                   d_series = ser, d_axis = ax, d_encodings = enc, d_labels = lab,
                   d_colors = col\<rparr>
         else Inl errors)"

text \<open>
  \<open>legend: Optional[Dict[str, Any]]\<close> is passed through unexamined; a value of type
  \<open>Any\<close> is kept as its JSON text.
\<close>

datatype anyval = AnyJson string

record LayoutSpec =
  lo_title :: "string option"
  lo_xaxis_title :: "string option"
  lo_yaxis_title :: "string option"
  lo_yaxis2_title :: "string option"
  lo_hovermode :: "HoverMode option"
  lo_template :: "string option"
  lo_colorway :: "string list option"
  lo_legend :: "(string \<times> anyval) list option"
  lo_height :: "int option"
  lo_width :: "int option"

record raw_LayoutSpec =
  rlo_title :: "string fld"
  rlo_xaxis_title :: "string fld"
  rlo_yaxis_title :: "string fld"
  rlo_yaxis2_title :: "string fld"
  rlo_hovermode :: "string fld"
  rlo_template :: "string fld"
  rlo_colorway :: "string list fld"
  rlo_legend :: "(string \<times> anyval) list fld"
  rlo_height :: "int fld"
  rlo_width :: "int fld"

text \<open>\<^verbatim>\<open>@validator("colorway")\<close>.\<close>

definition validate_colorway :: "string list \<Rightarrow> verr list + string list" where
  "validate_colorway v =
     (if v \<noteq> []
      then case find (\<lambda>c. \<not> valid_color c) v of
             Some c \<Rightarrow> Inl [([], InvalidColorway c)]
           | None \<Rightarrow> Inr v
      else Inr v)"

definition validate_LayoutSpec :: "raw_LayoutSpec \<Rightarrow> verr list + LayoutSpec" where
  "validate_LayoutSpec r =
     (let (e1, t) = optional_field ''title'' None accept (rlo_title r);
          (e2, xt) = optional_field ''xaxis_title'' None accept (rlo_xaxis_title r);
          (e3, yt) = optional_field ''yaxis_title'' None accept (rlo_yaxis_title r);
          (e4, y2t) = optional_field ''yaxis2_title'' None accept (rlo_yaxis2_title r);
          (e5, hm) = optional_field ''hovermode'' None
                       (enum_member HoverMode_value HoverMode_members) (rlo_hovermode r);
          (e6, tp) = optional_field ''template'' None accept (rlo_template r);
          (e7, cw) = optional_field ''colorway'' None validate_colorway (rlo_colorway r);
          (e8, lg) = optional_field ''legend'' None accept (rlo_legend r);
          (e9, ht) = optional_field ''height'' (Some 450) (bounded 200 2000) (rlo_height r);
          (e10, wd) = optional_field ''width'' None (bounded 200 4000) (rlo_width r);
          errors = e1 @ e2 @ e3 @ e4 @ e5 @ e6 @ e7 @ e8 @ e9 @ e10
      in if errors = []
         then Inr \<lparr>lo_title = t, lo_xaxis_title = xt, lo_yaxis_title = yt,
                   lo_yaxis2_title = y2t, lo_hovermode = hm, lo_template = tp,
                   lo_colorway = cw, lo_legend = lg, lo_height = ht, lo_width = wd\<rparr>
         else Inl errors)"

record PlotlyJSConfig =
  pc_responsive :: bool
  pc_displayModeBar :: bool
  pc_displaylogo :: bool
  pc_scrollZoom :: bool
  pc_modeBarButtonsToRemove :: "string list option"

record raw_PlotlyJSConfig =
  rpc_responsive :: "bool fld"
  rpc_displayModeBar :: "bool fld"
  rpc_displaylogo :: "bool fld"
  rpc_scrollZoom :: "bool fld"
  rpc_modeBarButtonsToRemove :: "string list fld"

definition validate_PlotlyJSConfig :: "raw_PlotlyJSConfig \<Rightarrow> verr list + PlotlyJSConfig" where
  "validate_PlotlyJSConfig r =
     (let (e1, rs) = default_field ''responsive'' True accept (rpc_responsive r);
          (e2, mb) = default_field ''displayModeBar'' True accept (rpc_displayModeBar r);
          (e3, dl) = default_field ''displaylogo'' False accept (rpc_displaylogo r);
          (e4, sz) = default_field ''scrollZoom'' False accept (rpc_scrollZoom r);
          (e5, rm) = optional_field ''modeBarButtonsToRemove'' None accept
                       (rpc_modeBarButtonsToRemove r);
          errors = e1 @ e2 @ e3 @ e4 @ e5
      in case (errors, rs, mb, dl, sz) of
           ([], Some rs', Some mb', Some dl', Some sz') \<Rightarrow>
             Inr \<lparr>pc_responsive = rs', pc_displayModeBar = mb', pc_displaylogo = dl',
                  pc_scrollZoom = sz', pc_modeBarButtonsToRemove = rm\<rparr>
         | _ \<Rightarrow> Inl errors)"

subsection \<open>The top-level envelope and its semantic checks\<close>

record VizSpec =
  vs_version :: string
  vs_chart :: ChartSpec
  vs_data :: DataSpec
  vs_layout :: "LayoutSpec option"
  vs_plotly_config :: "PlotlyJSConfig option"

text \<open>\<open>rv_extra\<close>: the keys of the input that name no field (\<open>extra = "forbid"\<close>).\<close>

record raw_VizSpec =
  rv_version :: "string fld"
  rv_chart :: "raw_ChartSpec fld"
  rv_data :: "raw_DataSpec fld"
  rv_layout :: "raw_LayoutSpec fld"
  rv_plotly_config :: "raw_PlotlyJSConfig fld"
  rv_extra :: "string list"

text \<open>Python truthiness of an \<open>Optional[str]\<close>, an \<open>Optional[List[str]]\<close> and of \<open>y\<close>.\<close>

definition truthy :: "'a list option \<Rightarrow> bool" where
  "truthy v = (case v of None \<Rightarrow> False | Some s \<Rightarrow> s \<noteq> [])"

definition truthy_y :: "yspec option \<Rightarrow> bool" where
  "truthy_y v = (case v of None \<Rightarrow> False | Some (YStr s) \<Rightarrow> s \<noteq> [] | Some (YList l) \<Rightarrow> l \<noteq> [])"

definition isinstance_list :: "yspec option \<Rightarrow> bool" where
  "isinstance_list v = (case v of Some (YList l) \<Rightarrow> True | _ \<Rightarrow> False)"

text \<open>\<open>data.series and data.series.by\<close>, as a truth value.\<close>

definition series_by :: "DataSpec \<Rightarrow> bool" where
  "series_by d = (case d_series d of None \<Rightarrow> False | Some s \<Rightarrow> truthy (s_by s))"

text \<open>\<open>data.axis.y2_for if (data.axis and data.axis.y2_for) else None\<close>.\<close>

definition y2_for_of :: "DataSpec \<Rightarrow> string list option" where
  "y2_for_of d =
     (case d_axis d of
        None \<Rightarrow> None
      | Some a \<Rightarrow> (if truthy (a_y2_for a) then a_y2_for a else None))"

text \<open>
  The five checks of \<^verbatim>\<open>VizSpec._semantic_checks\<close>, in source order; each gives the
  exception it raises, if any. The heatmap check reads \<open>getattr(data, k)\<close> with no test
  of \<open>data\<close>: when the \<open>data\<close> section failed its own validation, \<open>data\<close> is \<open>None\<close>
  and the read raises \<open>AttributeError\<close>.
\<close>

definition heatmap_missing :: "DataSpec \<Rightarrow> string list" where
  "heatmap_missing d =
     (if d_x d = None then [''x''] else []) @
     (if d_y d = None then [''y''] else []) @
     (if d_z d = None then [''z''] else [])"

definition check_heatmap :: "ChartSpec option \<Rightarrow> DataSpec option \<Rightarrow> pyexc option" where
  "check_heatmap chart data =
     (case chart of
        None \<Rightarrow> None
      | Some c \<Rightarrow>
          if ch_type c = CT_heatmap
          then (case data of
                  None \<Rightarrow> Some (AttributeError ''NoneType object has no attribute x'')
                | Some d \<Rightarrow>
                    if heatmap_missing d \<noteq> []
                    then Some (ValueError (HeatmapRequires (heatmap_missing d))) else None)
          else None)"

definition check_y2_for :: "DataSpec option \<Rightarrow> pyexc option" where
  "check_y2_for data =
     (case data of
        None \<Rightarrow> None
      | Some d \<Rightarrow>
          (case (y2_for_of d, d_y d) of
             (Some y2, Some (YList ys)) \<Rightarrow>
               (let bad = sort (remdups (filter (\<lambda>c. c \<notin> set ys) y2))
                in if bad \<noteq> [] then Some (ValueError (Y2ForNotInY bad)) else None)
           | _ \<Rightarrow> None))"

definition check_list_y_series :: "DataSpec option \<Rightarrow> pyexc option" where
  "check_list_y_series data =
     (case data of
        None \<Rightarrow> None
      | Some d \<Rightarrow>
          if isinstance_list (d_y d) \<and> series_by d
          then Some (ValueError ListYWithSeriesBy) else None)"

definition check_histogram :: "ChartSpec option \<Rightarrow> DataSpec option \<Rightarrow> pyexc option" where
  "check_histogram chart data =
     (case chart of
        None \<Rightarrow> None
      | Some c \<Rightarrow>
          if ch_type c = CT_histogram
          then (if \<not> (case data of None \<Rightarrow> False
                                | Some d \<Rightarrow> truthy (d_x d) \<or> truthy_y (d_y d))
                then Some (ValueError HistogramRequires) else None)
          else None)"

definition check_area :: "ChartSpec option \<Rightarrow> pyexc option" where
  "check_area chart =
     (case chart of
        None \<Rightarrow> None
      | Some c \<Rightarrow>
          if ch_type c = CT_area \<and> ch_mode c = Some Mode_markers
          then Some (ValueError AreaRequiresLines) else None)"

fun first_raised :: "pyexc option list \<Rightarrow> pyexc + unit" where
  "first_raised [] = Inr ()"
| "first_raised (None # cs) = first_raised cs"
| "first_raised (Some e # cs) = Inl e"

definition semantic_checks :: "ChartSpec option \<Rightarrow> DataSpec option \<Rightarrow> pyexc + unit" where
  "semantic_checks chart data =
     first_raised
       [check_heatmap chart data, check_y2_for data, check_list_y_series data,
        check_histogram chart data, check_area chart]"

text \<open>\<open>version: str = Field("1.0", const=True)\<close>.\<close>

definition const_version :: "string \<Rightarrow> verr list + string" where
  "const_version s = (if s = ''1.0'' then Inr s else Inl [([], WrongConstant)])"

text \<open>
  Validation of the envelope, in the library's order: the fields, the forbidden extra
  keys (sorted), then the root validator, which runs even when a field has failed. A
  \<open>ValueError\<close> of the root validator becomes one more entry; any other exception
  leaves the validation as it is.
\<close>

definition validate_VizSpec :: "raw_VizSpec \<Rightarrow> pyexc + VizSpec" where
  "validate_VizSpec r =
     (let (e1, ver) = default_field ''version'' ''1.0'' const_version (rv_version r);
          (e2, chart) = required_field ''chart'' validate_ChartSpec (rv_chart r);
          (e3, data) = required_field ''data'' validate_DataSpec (rv_data r);
          (e4, layout) = optional_field ''layout'' None validate_LayoutSpec (rv_layout r);
          (e5, cfg) = optional_field ''plotly_config'' None validate_PlotlyJSConfig
                        (rv_plotly_config r);
          e6 = map (\<lambda>f. ([f], ExtraForbidden)) (sort (rv_extra r));
          errors = e1 @ e2 @ e3 @ e4 @ e5 @ e6
      in case semantic_checks chart data of
           Inl (ValueError m) \<Rightarrow> Inl (ValidationError (errors @ [([], m)]))
         | Inl exc \<Rightarrow> Inl exc
         | Inr u \<Rightarrow>
             (case (errors, ver, chart, data) of
                ([], Some ver', Some chart', Some data') \<Rightarrow>
                  Inr \<lparr>vs_version = ver', vs_chart = chart', vs_data = data',
                       vs_layout = layout, vs_plotly_config = cfg\<rparr>
              | _ \<Rightarrow> Inl (ValidationError errors)))"

section \<open>The engine (viz\_engine.py)\<close>

subsection \<open>Errors and parsing\<close>

datatype ckind =
    MissingColumns "string list"
  | AmbiguousAggregation
  | MissingBinding
  | TooManyTraces nat nat

text \<open>
  The three error classes of the engine, and \<open>Uncaught\<close> for a Python exception that no
  handler of the engine catches.
\<close>

datatype error =
    SpecParseError string
  | SpecValidationError "verr list"
  | CompileError ckind
  | Uncaught pyexc

text \<open>
  A decoded input object: a mapping with the fields of the envelope, or a value from
  which no \<open>dict\<close> can be made (a number, \<open>null\<close>, a list of scalars, ...).
\<close>

datatype pyobj = NotMapping | Mapping raw_VizSpec

text \<open>
  \<open>VizSpec.parse_obj\<close> and \<open>VizSpec.parse_raw\<close> of pydantic v1: an object that is no
  mapping and a text that is no JSON are both reported as a \<open>ValidationError\<close> at
  \<open>__root__\<close>. The decoder \<open>json.loads\<close> is the parameter \<open>loads\<close> (\<open>None\<close> when it
  raises).
\<close>

definition parse_obj :: "pyobj \<Rightarrow> pyexc + VizSpec" where
  "parse_obj obj =
     (case obj of
        NotMapping \<Rightarrow> Inl (ValidationError [([], WrongType)])
      | Mapping r \<Rightarrow> validate_VizSpec r)"

definition parse_raw :: "(string \<Rightarrow> pyobj option) \<Rightarrow> string \<Rightarrow> pyexc + VizSpec" where
  "parse_raw loads b =
     (case loads b of
        None \<Rightarrow> Inl (ValidationError [([], WrongType)])
      | Some obj \<Rightarrow> parse_obj obj)"

datatype spec_input = SpecModel VizSpec | SpecStr string | SpecObj pyobj

fun exc_str :: "pyexc \<Rightarrow> string" where
  "exc_str (AttributeError m) = m"
| "exc_str (TypeError m) = m"
| "exc_str (KeyError m) = m"
| "exc_str (IndexError m) = m"
| "exc_str (ValueError m) = ''ValueError''"
| "exc_str (ValidationError es) = ''ValidationError''"

text \<open>
  \<^verbatim>\<open>except ValidationError as ve: raise SpecValidationError(ve.json())\<close>, then
  \<^verbatim>\<open>except Exception as e: raise SpecParseError(str(e))\<close>.
\<close>

definition reraise :: "pyexc + VizSpec \<Rightarrow> error + VizSpec" where
  "reraise res =
     (case res of
        Inr m \<Rightarrow> Inr m
      | Inl (ValidationError es) \<Rightarrow> Inl (SpecValidationError es)
      | Inl e \<Rightarrow> Inl (SpecParseError (exc_str e)))"

definition parse_viz_spec :: "(string \<Rightarrow> pyobj option) \<Rightarrow> spec_input \<Rightarrow> error + VizSpec" where
  "parse_viz_spec loads spec =
     (case spec of
        SpecModel m \<Rightarrow> Inr m
      | SpecStr s \<Rightarrow> reraise (parse_raw loads s)
      | SpecObj obj \<Rightarrow> reraise (parse_obj obj))"

subsection \<open>Dataframes and the store\<close>

text \<open>
  A pandas column is its dtype (only "is it \<open>datetime64\<close>" is ever asked) and its
  values, \<open>None\<close> for a missing value (\<open>NaN\<close>/\<open>None\<close>). A dataframe is the list of its
  named columns, in column order. The type \<open>'v\<close> of the values is a parameter; group
  keys are sorted, so it is linearly ordered.
\<close>

datatype dtype = Datetime64 | OtherDtype

type_synonym 'v column = "dtype \<times> 'v option list"

type_synonym 'v frame = "(string \<times> 'v column) list"

text \<open>
  Python objects are shared: the caller and the engine hold references (indices) into
  a store of dataframes. \<open>df.copy()\<close> allocates a new dataframe; \<open>df[x] = col\<close> writes
  through the reference.
\<close>

type_synonym 'v store = "'v frame list"

definition frame_copy :: "'v store \<Rightarrow> nat \<Rightarrow> 'v store \<times> nat" where
  "frame_copy s r = (s @ [s ! r], length s)"

definition set_column :: "'v frame \<Rightarrow> string \<Rightarrow> 'v column \<Rightarrow> 'v frame" where
  "set_column df c col =
     (if c \<in> set (map fst df)
      then map (\<lambda>(n, old). if n = c then (n, col) else (n, old)) df
      else df @ [(c, col)])"

definition store_setitem :: "'v store \<Rightarrow> nat \<Rightarrow> string \<Rightarrow> 'v column \<Rightarrow> 'v store" where
  "store_setitem s r c col = s[r := set_column (s ! r) c col]"

definition ebind :: "error + 'a \<Rightarrow> ('a \<Rightarrow> error + 'b) \<Rightarrow> error + 'b" where
  "ebind m f = (case m of Inl e \<Rightarrow> Inl e | Inr v \<Rightarrow> f v)"

fun emap :: "('a \<Rightarrow> error + 'b) \<Rightarrow> 'a list \<Rightarrow> error + 'b list" where
  "emap f [] = Inr []"
| "emap f (a # as) = ebind (f a) (\<lambda>b. ebind (emap f as) (\<lambda>bs. Inr (b # bs)))"

text \<open>\<open>df[c]\<close> raises \<open>KeyError\<close> for a name that is no column (and for \<open>None\<close>).\<close>

definition getcol :: "'v frame \<Rightarrow> string \<Rightarrow> error + 'v column" where
  "getcol df c =
     (case map_of df c of None \<Rightarrow> Inl (Uncaught (KeyError c)) | Some col \<Rightarrow> Inr col)"

definition getvals :: "'v frame \<Rightarrow> string \<Rightarrow> error + 'v option list" where
  "getvals df c = ebind (getcol df c) (\<lambda>col. Inr (snd col))"

definition getvals_opt :: "'v frame \<Rightarrow> string option \<Rightarrow> error + 'v option list" where
  "getvals_opt df c =
     (case c of None \<Rightarrow> Inl (Uncaught (KeyError ''None'')) | Some n \<Rightarrow> getvals df n)"

text \<open>\<open>df[c] if c else None\<close>.\<close>

definition getvals_if :: "'v frame \<Rightarrow> string option \<Rightarrow> error + 'v option list option" where
  "getvals_if df c =
     (if truthy c then ebind (getvals_opt df c) (\<lambda>vs. Inr (Some vs)) else Inr None)"

text \<open>The rows of a dataframe selected by a boolean mask, in their order.\<close>

definition mask_vals :: "bool list \<Rightarrow> 'a list \<Rightarrow> 'a list" where
  "mask_vals sel vs = map snd (filter fst (zip sel vs))"

definition take_rows :: "bool list \<Rightarrow> 'v frame \<Rightarrow> 'v frame" where
  "take_rows sel df = map (\<lambda>(n, (dt, vs)). (n, (dt, mask_vals sel vs))) df"

definition somes :: "'a option list \<Rightarrow> 'a list" where
  "somes vs = List.map_filter id vs"

text \<open>
  \<open>df.groupby(c)\<close> with the defaults of pandas (\<open>sort=True\<close>, \<open>dropna=True\<close>): iterating
  it yields one pair (key, sub-frame) per distinct non-missing value of the column, the
  keys in ascending order, each sub-frame holding the rows with that key in their
  original order. An unknown column raises \<open>KeyError\<close>.
\<close>

definition groupby :: "'v::linorder frame \<Rightarrow> string \<Rightarrow> error + ('v \<times> 'v frame) list" where
  "groupby df c =
     ebind (getvals df c) (\<lambda>keys.
       Inr (map (\<lambda>k. (k, take_rows (map (\<lambda>v. v = Some k) keys) df))
                (sort (remdups (somes keys)))))"

text \<open>
  What the engine takes from its libraries: \<open>json.loads\<close> (\<open>None\<close> when the text is not
  JSON), \<open>str\<close> on a cell value, and \<open>pd.to_datetime(col, errors="ignore")\<close> (\<open>None\<close>
  when it raises).
\<close>

record 'v pylib =
  json_loads :: "string \<Rightarrow> pyobj option"
  py_str :: "'v \<Rightarrow> string"
  to_datetime :: "'v column \<Rightarrow> 'v column option"

subsection \<open>Traces, layout, figure\<close>

datatype trace_kind = Scatter | Bar | Histogram | Box | Heatmap | Pie

datatype 'v arr = Cells "'v option list" | Strs "string list" | Matrix "'v option list list"

record marker =
  m_size :: "int option"
  m_color :: "string option"

record line =
  ln_shape :: "string option"
  ln_color :: "string option"

record 'v trace =
  t_kind :: trace_kind
  t_x :: "'v arr option"
  t_y :: "'v arr option"
  t_z :: "'v arr option"
  t_mode :: "string option"
  t_name :: "string option"
  t_text :: "'v option list option"
  t_fill :: "string option"
  t_stackgroup :: "string option"
  t_histnorm :: "string option"
  t_boxpoints :: "string option"
  t_labels :: "'v option list option"
  t_values :: "'v option list option"
  t_opacity :: "rat option"
  t_marker :: marker
  t_line :: line
  t_yaxis :: "string option"

definition new_trace :: "trace_kind \<Rightarrow> 'v trace" where
  "new_trace k =
     \<lparr>t_kind = k, t_x = None, t_y = None, t_z = None, t_mode = None, t_name = None,
      t_text = None, t_fill = None, t_stackgroup = None, t_histnorm = None,
      t_boxpoints = None, t_labels = None, t_values = None, t_opacity = None,
      t_marker = \<lparr>m_size = None, m_color = None\<rparr>,
      t_line = \<lparr>ln_shape = None, ln_color = None\<rparr>, t_yaxis = None\<rparr>"

text \<open>
  \<open>hasattr(trace, "marker")\<close> and \<open>hasattr(trace, "line")\<close>, by the trace classes of
  plotly: every class used here but \<open>Heatmap\<close> has \<open>marker\<close>; \<open>Scatter\<close> and \<open>Box\<close>
  have \<open>line\<close>.
\<close>

fun has_marker :: "trace_kind \<Rightarrow> bool" where
  "has_marker Heatmap = False"
| "has_marker k = True"

fun has_line :: "trace_kind \<Rightarrow> bool" where
  "has_line Scatter = True"
| "has_line Box = True"
| "has_line k = False"

record yaxis2 =
  y2_title :: "string option"
  y2_overlaying :: string
  y2_side :: string

record layout =
  ly_title :: "string option"
  ly_xaxis_title :: "string option"
  ly_yaxis_title :: "string option"
  ly_hovermode :: "string option"
  ly_template :: "string option"
  ly_colorway :: "string list option"
  ly_legend :: "(string \<times> anyval) list option"
  ly_height :: "int option"
  ly_width :: "int option"
  ly_yaxis2 :: "yaxis2 option"
  ly_barmode :: "string option"

definition empty_layout :: layout where
  "empty_layout =
     \<lparr>ly_title = None, ly_xaxis_title = None, ly_yaxis_title = None, ly_hovermode = None,
      ly_template = None, ly_colorway = None, ly_legend = None, ly_height = None,
      ly_width = None, ly_yaxis2 = None, ly_barmode = None\<rparr>"

record 'v figure =
  fig_data :: "'v trace list"
  fig_layout :: layout

subsection \<open>Helpers: cosmetics and guards\<close>

definition color_map_of :: "VizSpec \<Rightarrow> str_dict option" where
  "color_map_of spec =
     (case d_colors (vs_data spec) of
        None \<Rightarrow> None
      | Some c \<Rightarrow> (if truthy (c_color_map c) then c_color_map c else None))"

text \<open>
  \<open>trace.update(marker={"size": s, **old})\<close>: an entry of the old marker wins over the
  new one.
\<close>

definition keep_old :: "'a option \<Rightarrow> 'a \<Rightarrow> 'a option" where
  "keep_old old new = (case old of None \<Rightarrow> Some new | Some v \<Rightarrow> Some v)"

definition apply_encodings :: "EncodingsSpec \<Rightarrow> 'v trace \<Rightarrow> 'v trace" where
  "apply_encodings enc tr0 =
     (let tr1 = (case e_opacity enc of None \<Rightarrow> tr0 | Some op \<Rightarrow> tr0\<lparr>t_opacity := Some op\<rparr>);
          tr2 = (case e_marker_size enc of
                   None \<Rightarrow> tr1
                 | Some ms \<Rightarrow>
                     if has_marker (t_kind tr1)
                     then tr1\<lparr>t_marker := (t_marker tr1)
                                 \<lparr>m_size := keep_old (m_size (t_marker tr1)) ms\<rparr>\<rparr>
                     else tr1);
          tr3 = (case e_line_shape enc of
                   None \<Rightarrow> tr2
                 | Some ls \<Rightarrow>
                     if has_line (t_kind tr2)
                     then tr2\<lparr>t_line := (t_line tr2)
                                 \<lparr>ln_shape := keep_old (ln_shape (t_line tr2))
                                               (LineShape_value ls)\<rparr>\<rparr>
                     else tr2)
      in tr3)"

definition apply_color :: "string \<Rightarrow> 'v trace \<Rightarrow> 'v trace" where
  "apply_color col tr0 =
     (let tr1 = (if has_marker (t_kind tr0)
                 then tr0\<lparr>t_marker := (t_marker tr0)
                             \<lparr>m_color := keep_old (m_color (t_marker tr0)) col\<rparr>\<rparr>
                 else tr0);
          tr2 = (if has_line (t_kind tr1)
                 then tr1\<lparr>t_line := (t_line tr1)
                             \<lparr>ln_color := keep_old (ln_color (t_line tr1)) col\<rparr>\<rparr>
                 else tr1)
      in tr2)"

definition apply_common :: "'v trace \<Rightarrow> string \<Rightarrow> VizSpec \<Rightarrow> 'v trace" where
  "apply_common tr name_key spec =
     (let tr1 = (case d_encodings (vs_data spec) of
                   None \<Rightarrow> tr
                 | Some enc \<Rightarrow> apply_encodings enc tr)
      in case color_map_of spec of
           None \<Rightarrow> tr1
         | Some colors \<Rightarrow>
             if name_key \<noteq> []
             then (case map_of colors name_key of
                     None \<Rightarrow> tr1
                   | Some col \<Rightarrow> if col \<noteq> [] then apply_color col tr1 else tr1)
             else tr1)"

definition route_axis :: "'v trace \<Rightarrow> string option \<Rightarrow> VizSpec \<Rightarrow> 'v trace" where
  "route_axis tr ycol spec =
     (case y2_for_of (vs_data spec) of
        None \<Rightarrow> tr
      | Some y2 \<Rightarrow>
          (case ycol of
             None \<Rightarrow> tr
           | Some yc \<Rightarrow> if yc \<in> set y2 then tr\<lparr>t_yaxis := Some ''y2''\<rparr> else tr))"

definition guard_traces :: "'v figure \<Rightarrow> nat \<Rightarrow> error + unit" where
  "guard_traces fig max_traces =
     (let count = length (fig_data fig)
      in if count > max_traces then Inl (CompileError (TooManyTraces count max_traces))
         else Inr ())"

definition labels_y_of :: "VizSpec \<Rightarrow> str_dict" where
  "labels_y_of spec =
     (case d_labels (vs_data spec) of
        None \<Rightarrow> []
      | Some l \<Rightarrow> (case l_y l of None \<Rightarrow> [] | Some m \<Rightarrow> (if m \<noteq> [] then m else [])))"

definition labels_series_of :: "VizSpec \<Rightarrow> str_dict" where
  "labels_series_of spec =
     (case d_labels (vs_data spec) of
        None \<Rightarrow> []
      | Some l \<Rightarrow> (case l_series l of None \<Rightarrow> [] | Some m \<Rightarrow> (if m \<noteq> [] then m else [])))"

definition label_y :: "VizSpec \<Rightarrow> string option \<Rightarrow> string" where
  "label_y spec ycol =
     (case ycol of
        None \<Rightarrow> []
      | Some yc \<Rightarrow> (case map_of (labels_y_of spec) yc of None \<Rightarrow> yc | Some l \<Rightarrow> l))"

definition label_series :: "('v \<Rightarrow> string) \<Rightarrow> VizSpec \<Rightarrow> 'v option \<Rightarrow> string \<Rightarrow> string" where
  "label_series str spec key fallback =
     (case key of
        None \<Rightarrow> fallback
      | Some k \<Rightarrow> (case map_of (labels_series_of spec) (str k) of
                    None \<Rightarrow> str k
                  | Some l \<Rightarrow> l))"

definition listify :: "yspec option \<Rightarrow> string list" where
  "listify v = (case v of None \<Rightarrow> [] | Some (YList l) \<Rightarrow> l | Some (YStr s) \<Rightarrow> [s])"

definition ensure_columns :: "'v frame \<Rightarrow> string list \<Rightarrow> error + unit" where
  "ensure_columns df cols =
     (let missing = filter (\<lambda>c. c \<notin> set (map fst df)) cols
      in if missing \<noteq> [] then Inl (CompileError (MissingColumns missing)) else Inr ())"

subsection \<open>Helpers: traces\<close>

text \<open>The three ways the builders pick "the" y column out of \<open>data.y\<close>.\<close>

definition ycol_or_none :: "yspec option \<Rightarrow> error + string option" where
  \<comment> \<open>\<open>data.y if isinstance(data.y, str) or data.y is None else data.y[0]\<close>\<close>
  "ycol_or_none y =
     (case y of
        None \<Rightarrow> Inr None
      | Some (YStr c) \<Rightarrow> Inr (Some c)
      | Some (YList []) \<Rightarrow> Inl (Uncaught (IndexError ''list index out of range''))
      | Some (YList (c # cs)) \<Rightarrow> Inr (Some c))"

definition ycol_subscript :: "yspec option \<Rightarrow> error + string" where
  \<comment> \<open>\<open>data.y if isinstance(data.y, str) else data.y[0]\<close>\<close>
  "ycol_subscript y =
     (case y of
        None \<Rightarrow> Inl (Uncaught (TypeError ''NoneType object is not subscriptable''))
      | Some (YStr c) \<Rightarrow> Inr c
      | Some (YList []) \<Rightarrow> Inl (Uncaught (IndexError ''list index out of range''))
      | Some (YList (c # cs)) \<Rightarrow> Inr c)"

definition ycol_first :: "yspec option \<Rightarrow> error + string option" where
  \<comment> \<open>\<open>data.y if isinstance(data.y, str) else (data.y[0] if isinstance(data.y, list) else None)\<close>\<close>
  "ycol_first y =
     (case y of
        None \<Rightarrow> Inr None
      | Some (YStr c) \<Rightarrow> Inr (Some c)
      | Some (YList []) \<Rightarrow> Inl (Uncaught (IndexError ''list index out of range''))
      | Some (YList (c # cs)) \<Rightarrow> Inr (Some c))"

text \<open>\<open>c or ""\<close>.\<close>

definition or_empty :: "string option \<Rightarrow> string" where
  "or_empty c = (case c of None \<Rightarrow> [] | Some n \<Rightarrow> n)"

text \<open>\<open>data.series.by\<close> when \<open>data.series and data.series.by\<close> holds.\<close>

definition group_col_of :: "DataSpec \<Rightarrow> string option" where
  "group_col_of d =
     (case d_series d of
        None \<Rightarrow> None
      | Some s \<Rightarrow> (if truthy (s_by s) then s_by s else None))"

definition scatter_mode :: "ChartSpec \<Rightarrow> string" where
  "scatter_mode chart =
     (case ch_mode chart of
        Some m \<Rightarrow> Mode_value m
      | None \<Rightarrow>
          if ch_type chart = CT_line \<or> ch_type chart = CT_area
          then Mode_value Mode_lines else Mode_value Mode_markers)"

text \<open>\<open>area_opts\<close>: the \<open>fill\<close> and the \<open>stackgroup\<close> of an area chart.\<close>

definition area_opts :: "VizSpec \<Rightarrow> string option \<times> string option" where
  "area_opts spec =
     (if ch_type (vs_chart spec) = CT_area
      then (Some ''tozeroy'',
            case d_axis (vs_data spec) of
              None \<Rightarrow> None
            | Some a \<Rightarrow> (if truthy (a_area_stackgroup a) then a_area_stackgroup a else None))
      else (None, None))"

text \<open>
  The first part of \<^verbatim>\<open>_add_scatter_family\<close>: when \<open>x\<close> is bound and its column is not
  of a datetime dtype, the local name \<open>df\<close> is rebound to a copy and the converted
  column is written into the copy; an exception inside the \<open>try\<close> is swallowed. The
  result is the store and the reference that \<open>df\<close> holds afterwards.
\<close>

definition normalize_x ::
  "'v pylib \<Rightarrow> 'v store \<Rightarrow> nat \<Rightarrow> string option \<Rightarrow> 'v store \<times> (error + nat)" where
  "normalize_x lib s r x =
     (case x of
        None \<Rightarrow> (s, Inr r)
      | Some xn \<Rightarrow>
          if xn = [] then (s, Inr r)
          else (case getcol (s ! r) xn of
                  Inl e \<Rightarrow> (s, Inl e)
                | Inr col \<Rightarrow>
                    if fst col \<noteq> Datetime64
                    then (let (s1, r1) = frame_copy s r
                          in case getcol (s1 ! r1) xn of
                               Inl e \<Rightarrow> (s1, Inr r1)
                             | Inr c1 \<Rightarrow>
                                 (case to_datetime lib c1 of
                                    None \<Rightarrow> (s1, Inr r1)
                                  | Some c2 \<Rightarrow> (store_setitem s1 r1 xn c2, Inr r1)))
                    else (s, Inr r)))"

definition scatter_trace ::
  "'v option list option \<Rightarrow> 'v option list option \<Rightarrow> string \<Rightarrow> string \<Rightarrow>
   'v option list option \<Rightarrow> string option \<times> string option \<Rightarrow> 'v trace" where
  "scatter_trace xv yv mode name textv area =
     (new_trace Scatter)
       \<lparr>t_x := map_option Cells xv, t_y := map_option Cells yv, t_mode := Some mode,
        t_name := Some name, t_text := textv, t_fill := fst area,
        t_stackgroup := snd area\<rparr>"

text \<open>
  The body of the loop \<^verbatim>\<open>for key, g in df.groupby(group_col)\<close> of
  \<^verbatim>\<open>_add_scatter_family\<close>: the trace of one group.
\<close>

definition scatter_group_trace ::
  "'v pylib \<Rightarrow> VizSpec \<Rightarrow> 'v \<times> 'v frame \<Rightarrow> error + 'v trace" where
  "scatter_group_trace lib spec kg =
     (let data = vs_data spec; key = fst kg; g = snd kg
      in ebind (ycol_or_none (d_y data)) (\<lambda>ycol.
         ebind (getvals_if g (d_x data)) (\<lambda>xv.
         ebind (getvals_if g ycol) (\<lambda>yv.
         ebind (getvals_if g (d_text data)) (\<lambda>tv.
           Inr (route_axis
                 (apply_common
                    (scatter_trace xv yv (scatter_mode (vs_chart spec))
                       (label_series (py_str lib) spec (Some key) (label_y spec ycol))
                       tv (area_opts spec))
                    (py_str lib key) spec)
                 ycol spec))))))"

text \<open>
  The rest of \<^verbatim>\<open>_add_scatter_family\<close>, on the dataframe \<open>df\<close> now names: one trace per
  entry of a list \<open>y\<close>, or one per group of \<open>series.by\<close>, or a single trace.
\<close>

definition scatter_traces :: "'v::linorder pylib \<Rightarrow> 'v frame \<Rightarrow> VizSpec \<Rightarrow> error + 'v trace list" where
  "scatter_traces lib df spec =
     (let data = vs_data spec;
          x = d_x data;
          mode = scatter_mode (vs_chart spec);
          area = area_opts spec
      in ebind (getvals_if df (d_text data)) (\<lambda>textvals.
           if isinstance_list (d_y data) \<and> \<not> series_by data
           then emap (\<lambda>yc.
                  ebind (getvals_if df x) (\<lambda>xv.
                  ebind (getvals df yc) (\<lambda>yv.
                    Inr (route_axis
                          (apply_common
                             (scatter_trace xv (Some yv) mode (label_y spec (Some yc)) textvals area)
                             yc spec)
                          (Some yc) spec))))
                  (listify (d_y data))
           else (case group_col_of data of
                   Some group_col \<Rightarrow>
                     ebind (groupby df group_col) (\<lambda>groups.
                       emap (scatter_group_trace lib spec) groups)
                 | None \<Rightarrow>
                     ebind (ycol_or_none (d_y data)) (\<lambda>ycol.
                     ebind (getvals_if df x) (\<lambda>xv.
                     ebind (getvals_if df ycol) (\<lambda>yv.
                       Inr [route_axis
                              (apply_common
                                 (scatter_trace xv yv mode (label_y spec ycol) textvals area)
                                 (or_empty ycol) spec)
                              ycol spec]))))))"

definition add_scatter_family ::
  "'v::linorder pylib \<Rightarrow> 'v store \<Rightarrow> nat \<Rightarrow> VizSpec \<Rightarrow> 'v store \<times> (error + 'v trace list)" where
  "add_scatter_family lib s r spec =
     (let (s', res) = normalize_x lib s r (d_x (vs_data spec))
      in case res of
           Inl e \<Rightarrow> (s', Inl e)
         | Inr r' \<Rightarrow> (s', scatter_traces lib (s' ! r') spec))"

text \<open>
  \<open>df[X]\<close> in \<^verbatim>\<open>_add_bar\<close>, where \<open>X\<close> is \<open>data.x\<close> or, for a horizontal bar,
  \<open>data.y\<close>: a name selects a column, a list of names selects a sub-frame (its rows).
\<close>

definition frame_index :: "'v frame \<Rightarrow> yspec option \<Rightarrow> error + 'v arr" where
  "frame_index df X =
     (case X of
        None \<Rightarrow> Inl (Uncaught (KeyError ''None''))
      | Some (YStr c) \<Rightarrow> ebind (getvals df c) (\<lambda>vs. Inr (Cells vs))
      | Some (YList cs) \<Rightarrow> ebind (emap (getvals df) cs) (\<lambda>cols. Inr (Matrix (transpose cols))))"

definition bar_trace ::
  "'v arr \<Rightarrow> 'v arr \<Rightarrow> string \<Rightarrow> 'v option list option \<Rightarrow> 'v trace" where
  "bar_trace xa ya name textv =
     (new_trace Bar)\<lparr>t_x := Some xa, t_y := Some ya, t_name := Some name, t_text := textv\<rparr>"

text \<open>
  The \<open>x\<close> and \<open>y\<close> of one bar trace: \<open>{"x": df[X], "y": df[yc]}\<close> when vertical,
  \<open>{"x": df[yc], "y": df[X]}\<close> otherwise, read in that order.
\<close>

definition bar_xy :: "'v frame \<Rightarrow> string \<Rightarrow> yspec option \<Rightarrow> string \<Rightarrow> error + 'v arr \<times> 'v arr" where
  "bar_xy df orient X yc =
     (if orient = ''v''
      then ebind (frame_index df X) (\<lambda>xa. ebind (getvals df yc) (\<lambda>yv. Inr (xa, Cells yv)))
      else ebind (getvals df yc) (\<lambda>yv. ebind (frame_index df X) (\<lambda>xa. Inr (Cells yv, xa))))"

text \<open>\<open>orient\<close> and \<open>X\<close> of \<^verbatim>\<open>_add_bar\<close>.\<close>

definition bar_orient :: "VizSpec \<Rightarrow> string" where
  "bar_orient spec =
     (case ch_orientation (vs_chart spec) of
        Some ori \<Rightarrow> Orientation_value ori
      | None \<Rightarrow> Orientation_value Orientation_v)"

definition bar_X :: "VizSpec \<Rightarrow> yspec option" where
  "bar_X spec =
     (if bar_orient spec = ''v'' then map_option YStr (d_x (vs_data spec))
      else d_y (vs_data spec))"

text \<open>
  The body of the loop \<^verbatim>\<open>for key, g in df.groupby(group_col)\<close> of \<^verbatim>\<open>_add_bar\<close>.
\<close>

definition bar_group_trace ::
  "'v pylib \<Rightarrow> VizSpec \<Rightarrow> string \<Rightarrow> 'v \<times> 'v frame \<Rightarrow> error + 'v trace" where
  "bar_group_trace lib spec ycol kg =
     (let data = vs_data spec; key = fst kg; g = snd kg
      in ebind (bar_xy g (bar_orient spec) (bar_X spec) ycol) (\<lambda>(xa, ya).
         ebind (getvals_if g (d_text data)) (\<lambda>tv.
           Inr (route_axis
                 (apply_common
                    (bar_trace xa ya
                       (label_series (py_str lib) spec (Some key) (label_y spec (Some ycol)))
                       tv)
                    (py_str lib key) spec)
                 (Some ycol) spec))))"

definition add_bar :: "'v::linorder pylib \<Rightarrow> 'v frame \<Rightarrow> VizSpec \<Rightarrow> error + 'v trace list" where
  "add_bar lib df spec =
     (let data = vs_data spec;
          orient = bar_orient spec;
          X = bar_X spec
      in ebind (getvals_if df (d_text data)) (\<lambda>textvals.
           if isinstance_list (d_y data) \<and> \<not> series_by data
           then emap (\<lambda>yc.
                  ebind (bar_xy df orient X yc) (\<lambda>(xa, ya).
                    Inr (route_axis
                          (apply_common (bar_trace xa ya (label_y spec (Some yc)) textvals)
                             yc spec)
                          (Some yc) spec)))
                  (listify (d_y data))
           else (case group_col_of data of
                   Some group_col \<Rightarrow>
                     ebind (ycol_subscript (d_y data)) (\<lambda>ycol.
                     ebind (groupby df group_col) (\<lambda>groups.
                       emap (bar_group_trace lib spec ycol) groups))
                 | None \<Rightarrow>
                     ebind (ycol_subscript (d_y data)) (\<lambda>ycol.
                     ebind (bar_xy df orient X ycol) (\<lambda>(xa, ya).
                       Inr [route_axis
                              (apply_common
                                 (bar_trace xa ya (label_y spec (Some ycol)) textvals)
                                 ycol spec)
                              (Some ycol) spec])))))"

definition add_histogram :: "'v frame \<Rightarrow> VizSpec \<Rightarrow> error + 'v trace list" where
  "add_histogram df spec =
     (let data = vs_data spec
      in ebind (if truthy (d_x data) then Inr (d_x data) else ycol_first (d_y data)) (\<lambda>col.
         ebind (getvals_opt df col) (\<lambda>xv.
           Inr [apply_common
                  ((new_trace Histogram)
                     \<lparr>t_x := Some (Cells xv),
                      t_histnorm := map_option HistNorm_value (ch_histnorm (vs_chart spec))\<rparr>)
                  (or_empty col) spec])))"

definition box_trace ::
  "'v option list option \<Rightarrow> 'v option list \<Rightarrow> string \<Rightarrow> 'v option list option \<Rightarrow> 'v trace" where
  "box_trace xv yv name textv =
     (new_trace Box)
       \<lparr>t_x := map_option Cells xv, t_y := Some (Cells yv), t_name := Some name,
        t_text := textv, t_boxpoints := Some ''outliers''\<rparr>"

definition add_box :: "'v frame \<Rightarrow> VizSpec \<Rightarrow> error + 'v trace list" where
  "add_box df spec =
     (let data = vs_data spec
      in case (truthy (d_x data), d_y data) of
           (True, Some (YStr yc)) \<Rightarrow>
             ebind (getvals_opt df (d_x data)) (\<lambda>xv.
             ebind (getvals df yc) (\<lambda>yv.
             ebind (getvals_if df (d_text data)) (\<lambda>tv.
               Inr [apply_common (box_trace (Some xv) yv (label_y spec (Some yc)) tv) yc spec])))
         | _ \<Rightarrow>
             ebind (ycol_first (d_y data)) (\<lambda>ycol.
             ebind (getvals_opt df ycol) (\<lambda>yv.
             ebind (getvals_if df (d_text data)) (\<lambda>tv.
               Inr [apply_common (box_trace None yv (label_y spec ycol) tv)
                      (or_empty ycol) spec]))))"

text \<open>
  \<open>df.duplicated(subset=[x, y], keep=False).any()\<close>: some (x, y) pair occurs in two
  rows (missing values compare equal).
\<close>

definition any_duplicated :: "'a list \<Rightarrow> 'b list \<Rightarrow> bool" where
  "any_duplicated xs ys = (\<not> distinct (zip xs ys))"

text \<open>
  \<open>df.pivot(index=y, columns=x, values=z)\<close> on unique pairs: the row labels are the
  distinct \<open>y\<close> values and the column labels the distinct \<open>x\<close> values, both sorted
  ascending (a missing value first); the cell of a pair that has no row is missing.
  When \<open>x\<close> and \<open>y\<close> name the same column, the two levels of the index that
  \<open>pivot\<close> builds carry the same name, and unstacking the level of that name raises
  \<open>ValueError\<close> (after the three columns have been read).
\<close>

definition pivot_labels :: "'v::linorder option list \<Rightarrow> 'v option list" where
  "pivot_labels vs = sort (remdups vs)"

definition pivot_cell ::
  "'v option list \<Rightarrow> 'v option list \<Rightarrow> 'v option list \<Rightarrow> 'v option \<Rightarrow> 'v option \<Rightarrow> 'v option" where
  "pivot_cell xs ys zs xk yk =
     (case map_of (zip (zip xs ys) zs) (xk, yk) of None \<Rightarrow> None | Some z \<Rightarrow> z)"

definition pivot_values ::
  "'v::linorder option list \<Rightarrow> 'v option list \<Rightarrow> 'v option list \<Rightarrow> 'v option list list" where
  "pivot_values xs ys zs =
     map (\<lambda>yk. map (\<lambda>xk. pivot_cell xs ys zs xk yk) (pivot_labels xs)) (pivot_labels ys)"

text \<open>\<open>Index.astype(str)\<close>: \<open>str\<close> on each label, \<open>nan\<close> for a missing one.\<close>

definition astype_str :: "('v \<Rightarrow> string) \<Rightarrow> 'v option list \<Rightarrow> string list" where
  "astype_str str vs = map (\<lambda>v. case v of None \<Rightarrow> ''nan'' | Some k \<Rightarrow> str k) vs"

text \<open>\<open>df.values\<close>: the rows of the dataframe.\<close>

definition frame_values :: "'v frame \<Rightarrow> 'v option list list" where
  "frame_values df = transpose (map (\<lambda>(n, (dt, vs)). vs) df)"

definition add_heatmap :: "'v::linorder pylib \<Rightarrow> 'v frame \<Rightarrow> VizSpec \<Rightarrow> error + 'v trace list" where
  "add_heatmap lib df spec =
     (let data = vs_data spec;
          fallback = Inr [(new_trace Heatmap)\<lparr>t_z := Some (Matrix (frame_values df))\<rparr>]
      in if truthy (d_x data) \<and> truthy_y (d_y data) \<and> truthy (d_z data)
         then (case (d_x data, d_y data, d_z data) of
                 (Some x, Some (YStr y), Some z) \<Rightarrow>
                   ebind (getvals df x) (\<lambda>xs.
                   ebind (getvals df y) (\<lambda>ys.
                     if any_duplicated xs ys
                     then Inl (CompileError AmbiguousAggregation)
                     else ebind (getvals df z) (\<lambda>zs.
                            if x = y
                            then Inl (Uncaught (ValueError (NameOccursMultipleTimes x)))
                            else Inr [(new_trace Heatmap)
                                        \<lparr>t_z := Some (Matrix (pivot_values xs ys zs)),
                                         t_x := Some (Strs (astype_str (py_str lib)
                                                             (pivot_labels xs))),
                                         t_y := Some (Strs (astype_str (py_str lib)
                                                             (pivot_labels ys)))\<rparr>])))
               | (Some x, Some (YList l), Some z) \<Rightarrow>
                   Inl (Uncaught (TypeError ''unhashable type: list''))
               | _ \<Rightarrow> fallback)
         else fallback)"

definition add_pie :: "'v frame \<Rightarrow> VizSpec \<Rightarrow> error + 'v trace list" where
  "add_pie df spec =
     (let data = vs_data spec
      in ebind (ycol_first (d_y data)) (\<lambda>val_col.
           if \<not> (truthy (d_x data) \<and> truthy val_col)
           then Inl (CompileError MissingBinding)
           else ebind (getvals_opt df (d_x data)) (\<lambda>labels.
                ebind (getvals_opt df val_col) (\<lambda>vals.
                ebind (getvals_if df (d_text data)) (\<lambda>tv.
                  Inr [apply_common
                         ((new_trace Pie)
                            \<lparr>t_labels := Some labels, t_values := Some vals, t_text := tv,
                             t_name := Some (if truthy (d_name data) then or_empty (d_name data)
                                             else label_y spec val_col)\<rparr>)
                         (or_empty val_col) spec])))))"

subsection \<open>Public API\<close>

text \<open>The presentation part of \<^verbatim>\<open>compile_figure\<close>: the layout and the bar mode.\<close>

definition update_layout :: "VizSpec \<Rightarrow> layout" where
  "update_layout spec =
     (let l1 = (case vs_layout spec of
                  None \<Rightarrow> empty_layout
                | Some lo \<Rightarrow>
                    (let l0 = empty_layout
                           \<lparr>ly_title := lo_title lo, ly_xaxis_title := lo_xaxis_title lo,
                            ly_yaxis_title := lo_yaxis_title lo,
                            ly_hovermode := map_option HoverMode_value (lo_hovermode lo),
                            ly_template := lo_template lo, ly_colorway := lo_colorway lo,
                            ly_legend := lo_legend lo, ly_height := lo_height lo,
                            ly_width := lo_width lo\<rparr>
                     in if y2_for_of (vs_data spec) \<noteq> None
                        then l0\<lparr>ly_yaxis2 := Some \<lparr>y2_title = lo_yaxis2_title lo,
                                                    y2_overlaying = ''y'',
                                                    y2_side = ''right''\<rparr>\<rparr>
                        else l0))
      in case (ch_type (vs_chart spec), ch_barmode (vs_chart spec)) of
           (CT_bar, Some bm) \<Rightarrow> l1\<lparr>ly_barmode := Some (BarMode_value bm)\<rparr>
         | _ \<Rightarrow> l1)"

text \<open>\<open>[c for c in [data.x] + _listify(data.y) + [data.z, data.text] if c]\<close>.\<close>

definition referenced_columns :: "DataSpec \<Rightarrow> string list" where
  "referenced_columns data =
     filter (\<lambda>c. c \<noteq> [])
       (somes [d_x data] @ listify (d_y data) @ somes [d_z data, d_text data])"

definition add_traces ::
  "'v::linorder pylib \<Rightarrow> 'v store \<Rightarrow> nat \<Rightarrow> VizSpec \<Rightarrow> 'v store \<times> (error + 'v trace list)" where
  "add_traces lib s r model =
     (case ch_type (vs_chart model) of
        CT_line \<Rightarrow> add_scatter_family lib s r model
      | CT_scatter \<Rightarrow> add_scatter_family lib s r model
      | CT_area \<Rightarrow> add_scatter_family lib s r model
      | CT_bar \<Rightarrow> (s, add_bar lib (s ! r) model)
      | CT_histogram \<Rightarrow> (s, add_histogram (s ! r) model)
      | CT_box \<Rightarrow> (s, add_box (s ! r) model)
      | CT_heatmap \<Rightarrow> (s, add_heatmap lib (s ! r) model)
      | CT_pie \<Rightarrow> (s, add_pie (s ! r) model))"

text \<open>
  \<^verbatim>\<open>compile_figure(df, spec)\<close>: \<open>s\<close> is the store before the call and \<open>r\<close> the
  caller's reference to its dataframe; the result is the store after the call and the
  figure or the exception raised.
\<close>

definition compile_figure ::
  "'v::linorder pylib \<Rightarrow> 'v store \<Rightarrow> nat \<Rightarrow> spec_input \<Rightarrow> 'v store \<times> (error + 'v figure)" where
  "compile_figure lib s r spec =
     (case parse_viz_spec (json_loads lib) spec of
        Inl e \<Rightarrow> (s, Inl e)
      | Inr model \<Rightarrow>
          (case ensure_columns (s ! r) (referenced_columns (vs_data model)) of
             Inl e \<Rightarrow> (s, Inl e)
           | Inr u \<Rightarrow>
               (let (s', res) = add_traces lib s r model
                in case res of
                     Inl e \<Rightarrow> (s', Inl e)
                   | Inr traces \<Rightarrow>
                       (let fig = \<lparr>fig_data = traces, fig_layout = update_layout model\<rparr>
                        in case guard_traces fig 64 of
                             Inl e \<Rightarrow> (s', Inl e)
                           | Inr u' \<Rightarrow> (s', Inr fig)))))"

record 'v payload =
  p_figure :: "'v figure"
  p_plotly_config :: "PlotlyJSConfig option"
  p_viz_spec_version :: string

text \<open>
  \<^verbatim>\<open>compile_payload(df, spec)\<close>; \<open>dumps\<close> is \<open>json.dumps\<close> on the payload (\<open>None\<close> when
  it raises \<open>TypeError\<close>), whose result is discarded. \<open>p_plotly_config\<close> is \<open>None\<close> for
  the empty dictionary.
\<close>

definition compile_payload ::
  "'v::linorder pylib \<Rightarrow> ('v payload \<Rightarrow> string option) \<Rightarrow> 'v store \<Rightarrow> nat \<Rightarrow> spec_input \<Rightarrow>
   'v store \<times> (error + 'v payload)" where
  "compile_payload lib dumps s r spec =
     (case parse_viz_spec (json_loads lib) spec of
        Inl e \<Rightarrow> (s, Inl e)
      | Inr model \<Rightarrow>
          (let (s', res) = compile_figure lib s r (SpecModel model)
           in case res of
                Inl e \<Rightarrow> (s', Inl e)
              | Inr fig \<Rightarrow>
                  (let payload = \<lparr>p_figure = fig, p_plotly_config = vs_plotly_config model,
                                  p_viz_spec_version = vs_version model\<rparr>
                   in case dumps payload of
                        None \<Rightarrow> (s', Inl (Uncaught (TypeError ''not JSON serializable'')))
                      | Some txt \<Rightarrow> (s', Inr payload))))"

section \<open>The earlier schema of stuff.md\<close>

text \<open>
  \<^verbatim>\<open>stuff.md\<close> holds an earlier \<^verbatim>\<open>pydantic_viz_spec.py\<close>. It has the same fields and
  field validators as the schema above and differs in its two root validators:
  \<^verbatim>\<open>ChartSpec._defaults_and_semantics\<close> assigns \<open>orientation\<close> its own value for a
  chart that is no bar chart, and \<^verbatim>\<open>VizSpec._semantic_checks\<close> has three checks only
  (heatmap, \<open>y2_for\<close>, area).
\<close>

definition defaults_and_semantics_stuff :: "chart_values \<Rightarrow> chart_values" where
  "defaults_and_semantics_stuff values0 =
     (let t = cv_type values0;
          mode = cv_mode values0;
          values1 = (if (t = Some CT_line \<or> t = Some CT_area) \<and> mode = None
                     then values0\<lparr>cv_mode := Some Mode_lines\<rparr> else values0);
          values2 = (if t \<noteq> Some CT_bar
                     then values1\<lparr>cv_orientation := cv_orientation values1\<rparr> else values1);
          values3 = (if t \<noteq> Some CT_histogram then values2\<lparr>cv_histnorm := None\<rparr> else values2)
      in values3)"

definition validate_ChartSpec_stuff :: "raw_ChartSpec \<Rightarrow> verr list + ChartSpec" where
  "validate_ChartSpec_stuff r =
     (let (e1, t) = required_field ''type'' (enum_member ChartType_value ChartType_members)
                      (rch_type r);
          (e2, m) = optional_field ''mode'' None (enum_member Mode_value Mode_members)
                      (rch_mode r);
          (e3, orient) = optional_field ''orientation'' None
                      (enum_member Orientation_value Orientation_members) (rch_orientation r);
          (e4, bm) = optional_field ''barmode'' None
                      (enum_member BarMode_value BarMode_members) (rch_barmode r);
          (e5, hn) = optional_field ''histnorm'' None
                      (enum_member HistNorm_value HistNorm_members) (rch_histnorm r);
          errors = e1 @ e2 @ e3 @ e4 @ e5;
          values = defaults_and_semantics_stuff
                     \<lparr>cv_type = t, cv_mode = m, cv_orientation = orient, cv_barmode = bm,
                      cv_histnorm = hn\<rparr>
      in case (errors, cv_type values) of
           ([], Some ty) \<Rightarrow>
             Inr \<lparr>ch_type = ty, ch_mode = cv_mode values,
                  ch_orientation = cv_orientation values, ch_barmode = cv_barmode values,
                  ch_histnorm = cv_histnorm values\<rparr>
         | _ \<Rightarrow> Inl errors)"

definition semantic_checks_stuff :: "ChartSpec option \<Rightarrow> DataSpec option \<Rightarrow> pyexc + unit" where
  "semantic_checks_stuff chart data =
     first_raised [check_heatmap chart data, check_y2_for data, check_area chart]"

definition validate_VizSpec_stuff :: "raw_VizSpec \<Rightarrow> pyexc + VizSpec" where
  "validate_VizSpec_stuff r =
     (let (e1, ver) = default_field ''version'' ''1.0'' const_version (rv_version r);
          (e2, chart) = required_field ''chart'' validate_ChartSpec_stuff (rv_chart r);
          (e3, data) = required_field ''data'' validate_DataSpec (rv_data r);
          (e4, layout) = optional_field ''layout'' None validate_LayoutSpec (rv_layout r);
          (e5, cfg) = optional_field ''plotly_config'' None validate_PlotlyJSConfig
                        (rv_plotly_config r);
          e6 = map (\<lambda>f. ([f], ExtraForbidden)) (sort (rv_extra r));
          errors = e1 @ e2 @ e3 @ e4 @ e5 @ e6
      in case semantic_checks_stuff chart data of
           Inl (ValueError m) \<Rightarrow> Inl (ValidationError (errors @ [([], m)]))
         | Inl exc \<Rightarrow> Inl exc
         | Inr u \<Rightarrow>
             (case (errors, ver, chart, data) of
                ([], Some ver', Some chart', Some data') \<Rightarrow>
                  Inr \<lparr>vs_version = ver', vs_chart = chart', vs_data = data',
                       vs_layout = layout, vs_plotly_config = cfg\<rparr>
              | _ \<Rightarrow> Inl (ValidationError errors)))"

section \<open>The canonical serialized form\<close>

text \<open>
  \<open>model.dict()\<close> / \<open>model.json()\<close> of pydantic, read back as an input: every field is
  present, \<open>None\<close> is \<open>null\<close>, an enum member is its value, a nested model is its own
  serialized form, and there are no extra keys.
\<close>

definition opt_raw :: "('a \<Rightarrow> 'r) \<Rightarrow> 'a option \<Rightarrow> 'r fld" where
  "opt_raw ser v = (case v of None \<Rightarrow> Null | Some a \<Rightarrow> Val (ser a))"

definition EncodingsSpec_dict :: "EncodingsSpec \<Rightarrow> raw_EncodingsSpec" where
  "EncodingsSpec_dict m =
     \<lparr>re_marker_size = opt_raw (\<lambda>a. a) (e_marker_size m),
      re_opacity = opt_raw (\<lambda>a. a) (e_opacity m),
      re_line_shape = opt_raw LineShape_value (e_line_shape m)\<rparr>"

definition SeriesSpec_dict :: "SeriesSpec \<Rightarrow> raw_SeriesSpec" where
  "SeriesSpec_dict m = \<lparr>rs_by = opt_raw (\<lambda>a. a) (s_by m)\<rparr>"

definition AxisSpec_dict :: "AxisSpec \<Rightarrow> raw_AxisSpec" where
  "AxisSpec_dict m =
     \<lparr>ra_y2_for = opt_raw (\<lambda>a. a) (a_y2_for m),
      ra_area_stackgroup = opt_raw (\<lambda>a. a) (a_area_stackgroup m)\<rparr>"

definition LabelsSpec_dict :: "LabelsSpec \<Rightarrow> raw_LabelsSpec" where
  "LabelsSpec_dict m =
     \<lparr>rl_y = opt_raw (\<lambda>a. a) (l_y m), rl_series = opt_raw (\<lambda>a. a) (l_series m)\<rparr>"

definition ColorsSpec_dict :: "ColorsSpec \<Rightarrow> raw_ColorsSpec" where
  "ColorsSpec_dict m = \<lparr>rc_color_map = opt_raw (\<lambda>a. a) (c_color_map m)\<rparr>"

definition ChartSpec_dict :: "ChartSpec \<Rightarrow> raw_ChartSpec" where
  "ChartSpec_dict m =
     \<lparr>rch_type = Val (ChartType_value (ch_type m)),
      rch_mode = opt_raw Mode_value (ch_mode m),
      rch_orientation = opt_raw Orientation_value (ch_orientation m),
      rch_barmode = opt_raw BarMode_value (ch_barmode m),
      rch_histnorm = opt_raw HistNorm_value (ch_histnorm m)\<rparr>"

definition DataSpec_dict :: "DataSpec \<Rightarrow> raw_DataSpec" where
  "DataSpec_dict m =
     \<lparr>rd_frame_name = opt_raw (\<lambda>a. a) (d_frame_name m),
      rd_x = opt_raw (\<lambda>a. a) (d_x m),
      rd_y = opt_raw (\<lambda>a. a) (d_y m),
      rd_z = opt_raw (\<lambda>a. a) (d_z m),
      rd_text = opt_raw (\<lambda>a. a) (d_text m),
      rd_name = opt_raw (\<lambda>a. a) (d_name m),
      rd_series = opt_raw SeriesSpec_dict (d_series m),
      rd_axis = opt_raw AxisSpec_dict (d_axis m),
      rd_encodings = opt_raw EncodingsSpec_dict (d_encodings m),
      rd_labels = opt_raw LabelsSpec_dict (d_labels m),
      rd_colors = opt_raw ColorsSpec_dict (d_colors m)\<rparr>"

definition LayoutSpec_dict :: "LayoutSpec \<Rightarrow> raw_LayoutSpec" where
  "LayoutSpec_dict m =
     \<lparr>rlo_title = opt_raw (\<lambda>a. a) (lo_title m),
      rlo_xaxis_title = opt_raw (\<lambda>a. a) (lo_xaxis_title m),
      rlo_yaxis_title = opt_raw (\<lambda>a. a) (lo_yaxis_title m),
      rlo_yaxis2_title = opt_raw (\<lambda>a. a) (lo_yaxis2_title m),
      rlo_hovermode = opt_raw HoverMode_value (lo_hovermode m),
      rlo_template = opt_raw (\<lambda>a. a) (lo_template m),
      rlo_colorway = opt_raw (\<lambda>a. a) (lo_colorway m),
      rlo_legend = opt_raw (\<lambda>a. a) (lo_legend m),
      rlo_height = opt_raw (\<lambda>a. a) (lo_height m),
      rlo_width = opt_raw (\<lambda>a. a) (lo_width m)\<rparr>"

definition PlotlyJSConfig_dict :: "PlotlyJSConfig \<Rightarrow> raw_PlotlyJSConfig" where
  "PlotlyJSConfig_dict m =
     \<lparr>rpc_responsive = Val (pc_responsive m),
      rpc_displayModeBar = Val (pc_displayModeBar m),
      rpc_displaylogo = Val (pc_displaylogo m),
      rpc_scrollZoom = Val (pc_scrollZoom m),
      rpc_modeBarButtonsToRemove = opt_raw (\<lambda>a. a) (pc_modeBarButtonsToRemove m)\<rparr>"

definition VizSpec_dict :: "VizSpec \<Rightarrow> raw_VizSpec" where
  "VizSpec_dict m =
     \<lparr>rv_version = Val (vs_version m),
      rv_chart = Val (ChartSpec_dict (vs_chart m)),
      rv_data = Val (DataSpec_dict (vs_data m)),
      rv_layout = opt_raw LayoutSpec_dict (vs_layout m),
      rv_plotly_config = opt_raw PlotlyJSConfig_dict (vs_plotly_config m),
      rv_extra = []\<rparr>"

section \<open>Example inputs\<close>

text \<open>
  A table of four stores in two regions, with string cells, and the pieces of specs
  used at concrete inputs below. \<open>str\<close> of a string is the string; the example columns
  hold no dates, so \<open>to_datetime(..., errors="ignore")\<close> returns its argument; the
  example decoder knows the text \<open>{}\<close> and rejects every other text.
\<close>

definition example_frame :: "string frame" where
  "example_frame =
     [(''store'', (OtherDtype, [Some ''A'', Some ''B'', Some ''C'', Some ''D''])),
      (''region'', (OtherDtype, [Some ''West'', Some ''East'', Some ''West'', Some ''East''])),
      (''sales'', (OtherDtype, [Some ''10'', Some ''20'', Some ''30'', Some ''40'']))]"


definition empty_raw_ChartSpec :: raw_ChartSpec where
  "empty_raw_ChartSpec =
     \<lparr>rch_type = Missing, rch_mode = Missing, rch_orientation = Missing,
      rch_barmode = Missing, rch_histnorm = Missing\<rparr>"

definition empty_raw_DataSpec :: raw_DataSpec where
  "empty_raw_DataSpec =
     \<lparr>rd_frame_name = Missing, rd_x = Missing, rd_y = Missing, rd_z = Missing,
      rd_text = Missing, rd_name = Missing, rd_series = Missing, rd_axis = Missing,
      rd_encodings = Missing, rd_labels = Missing, rd_colors = Missing\<rparr>"

definition empty_raw_VizSpec :: raw_VizSpec where
  "empty_raw_VizSpec =
     \<lparr>rv_version = Missing, rv_chart = Missing, rv_data = Missing, rv_layout = Missing,
      rv_plotly_config = Missing, rv_extra = []\<rparr>"

definition empty_raw_LayoutSpec :: raw_LayoutSpec where
  "empty_raw_LayoutSpec =
     \<lparr>rlo_title = Missing, rlo_xaxis_title = Missing, rlo_yaxis_title = Missing,
      rlo_yaxis2_title = Missing, rlo_hovermode = Missing, rlo_template = Missing,
      rlo_colorway = Missing, rlo_legend = Missing, rlo_height = Missing,
      rlo_width = Missing\<rparr>"

definition example_loads :: "string \<Rightarrow> pyobj option" where
  "example_loads txt = (if txt = ''{}'' then Some (Mapping empty_raw_VizSpec) else None)"

definition example_lib :: "string pylib" where
  "example_lib =
     \<lparr>json_loads = example_loads, py_str = (\<lambda>s. s), to_datetime = (\<lambda>col. Some col)\<rparr>"

text \<open>The raw spec with the given chart type and data section and nothing else.\<close>

definition raw_spec :: "string \<Rightarrow> raw_DataSpec \<Rightarrow> raw_VizSpec" where
  "raw_spec t d =
     empty_raw_VizSpec
       \<lparr>rv_chart := Val (empty_raw_ChartSpec\<lparr>rch_type := Val t\<rparr>), rv_data := Val d\<rparr>"

definition empty_DataSpec :: DataSpec where
  "empty_DataSpec =
     \<lparr>d_frame_name = None, d_x = None, d_y = None, d_z = None, d_text = None,
      d_name = None, d_series = None, d_axis = None, d_encodings = None, d_labels = None,
      d_colors = None\<rparr>"

text \<open>The validated spec with the given chart type and data section and nothing else.\<close>

definition model_spec :: "ChartType \<Rightarrow> DataSpec \<Rightarrow> VizSpec" where
  "model_spec t d =
     \<lparr>vs_version = ''1.0'',
      vs_chart = \<lparr>ch_type = t, ch_mode = None, ch_orientation = None, ch_barmode = None,
                  ch_histnorm = None\<rparr>,
      vs_data = d, vs_layout = None, vs_plotly_config = None\<rparr>"

definition empty_LayoutSpec :: LayoutSpec where
  "empty_LayoutSpec =
     \<lparr>lo_title = None, lo_xaxis_title = None, lo_yaxis_title = None,
      lo_yaxis2_title = None, lo_hovermode = None, lo_template = None, lo_colorway = None,
      lo_legend = None, lo_height = Some 450, lo_width = None\<rparr>"

text \<open>\<open>{x: "store", y: "sales", series: {by: "region"}}\<close>\<close>

definition sales_by_region :: DataSpec where
  "sales_by_region =
     empty_DataSpec
       \<lparr>d_x := Some ''store'', d_y := Some (YStr ''sales''),
        d_series := Some \<lparr>s_by = Some ''region''\<rparr>\<rparr>"

text \<open>\<open>{x: "store", y: "sales", axis: {y2_for: [c]}}\<close>\<close>

definition sales_on_y2 :: "string \<Rightarrow> DataSpec" where
  "sales_on_y2 c =
     empty_DataSpec
       \<lparr>d_x := Some ''store'', d_y := Some (YStr ''sales''),
        d_axis := Some \<lparr>a_y2_for = Some [c], a_area_stackgroup = None\<rparr>\<rparr>"

text \<open>A library whose \<open>to_datetime\<close> does convert: the column comes back as datetime.\<close>

definition converting_lib :: "string pylib" where
  "converting_lib = example_lib\<lparr>to_datetime := (\<lambda>col. Some (Datetime64, snd col))\<rparr>"

text \<open>\<open>{y: ["a", "b"], series: {by: "c"}}\<close>, raw and as the data section validates.\<close>

definition list_y_and_by_raw :: raw_DataSpec where
  "list_y_and_by_raw =
     empty_raw_DataSpec
       \<lparr>rd_y := Val (YList [''a'', ''b'']), rd_series := Val \<lparr>rs_by = Val ''c''\<rparr>\<rparr>"

definition list_y_and_by :: DataSpec where
  "list_y_and_by =
     empty_DataSpec
       \<lparr>d_y := Some (YList [''a'', ''b'']), d_series := Some \<lparr>s_by = Some ''c''\<rparr>\<rparr>"

text \<open>
  The same with an \<open>x\<close> that is no string (an object, say):
  \<open>{x: {}, y: ["a", "b"], series: {by: "c"}}\<close>.
\<close>

definition list_y_and_by_bad_x_raw :: raw_DataSpec where
  "list_y_and_by_bad_x_raw = list_y_and_by_raw\<lparr>rd_x := Bad\<rparr>"

text \<open>
  A heatmap whose \<open>x\<close> is the empty string: \<open>{x: "", y: "region", z: "sales"}\<close>, raw
  and validated.
\<close>

definition heatmap_empty_x_raw :: raw_DataSpec where
  "heatmap_empty_x_raw =
     empty_raw_DataSpec\<lparr>rd_x := Val '''', rd_y := Val (YStr ''region''), rd_z := Val ''sales''\<rparr>"

definition heatmap_empty_x :: DataSpec where
  "heatmap_empty_x =
     empty_DataSpec\<lparr>d_x := Some '''', d_y := Some (YStr ''region''), d_z := Some ''sales''\<rparr>"

text \<open>\<open>{x: "store", y: "region", z: "sales"}\<close>\<close>

definition heatmap_long :: DataSpec where
  "heatmap_long =
     empty_DataSpec
       \<lparr>d_x := Some ''store'', d_y := Some (YStr ''region''), d_z := Some ''sales''\<rparr>"

definition heatmap_long_raw :: raw_DataSpec where
  "heatmap_long_raw =
     empty_raw_DataSpec
       \<lparr>rd_x := Val ''store'', rd_y := Val (YStr ''region''), rd_z := Val ''sales''\<rparr>"

text \<open>
  Two encoders for \<open>json.dumps\<close>: one that meets a value it cannot encode, one that
  encodes the payload.
\<close>

definition failing_dumps :: "string payload \<Rightarrow> string option" where
  "failing_dumps p = None"

definition working_dumps :: "string payload \<Rightarrow> string option" where
  "working_dumps p = Some ''{}''"

section \<open>Notions used in the statements\<close>

definition raises_CompileError :: "error + 'a \<Rightarrow> bool" where
  "raises_CompileError res = (case res of Inl (CompileError k) \<Rightarrow> True | _ \<Rightarrow> False)"

text \<open>
  The trace of the heatmap builder's fallback branch: the raw values of the dataframe
  as the matrix, and no \<open>x\<close> or \<open>y\<close>.
\<close>

definition fallback_trace :: "'v frame \<Rightarrow> 'v trace" where
  "fallback_trace df = (new_trace Heatmap)\<lparr>t_z := Some (Matrix (frame_values df))\<rparr>"






text \<open>
  The \<open>chart\<close> section of the input validates to a heatmap chart while the \<open>data\<close>
  section does not validate (or is absent): the case in which the heatmap check of
  \<^verbatim>\<open>VizSpec._semantic_checks\<close> reads an attribute of \<open>None\<close>.
\<close>

definition heatmap_with_invalid_data :: "raw_VizSpec \<Rightarrow> bool" where
  "heatmap_with_invalid_data raw \<longleftrightarrow>
     (case snd (required_field ''chart'' validate_ChartSpec (rv_chart raw)) of
        None \<Rightarrow> False
      | Some c \<Rightarrow> ch_type c = CT_heatmap)
     \<and> snd (required_field ''data'' validate_DataSpec (rv_data raw)) = None"

section \<open>Verified properties\<close>

subsection \<open>Colors\<close>

lemma valid_color_any: "valid_color s"
  by (simp add: valid_color_def isinstance_str_def)

lemma first_invalid_color_None: "first_invalid_color v = None"
  by (induction v rule: first_invalid_color.induct) (simp_all add: valid_color_any)

lemma validate_colors_accepts: "validate_colors v = Inr v"
  by (simp add: validate_colors_def first_invalid_color_None)

lemma validate_colorway_accepts: "validate_colorway w = Inr w"
proof -
  have "find (\<lambda>c. \<not> valid_color c) w = None"
    by (simp add: find_None_iff valid_color_any)
  then show ?thesis
    unfolding validate_colorway_def by simp
qed

text \<open>
  Claim C9, as stated: an entry of \<open>data.colors.color_map\<close> or \<open>layout.colorway\<close> is
  rejected exactly when it is neither a 6- or 8-digit hex string nor a non-empty string.
  The empty string is neither, and both validators accept it.
\<close>

theorem C9_empty_color_accepted:
  "\<not> HEX_match '''' \<and> '''' = ([] :: string)
   \<and> validate_colors [(''East'', '''')] = Inr [(''East'', '''')]
   \<and> validate_colorway [''''] = Inr ['''']
   \<and> validate_ColorsSpec \<lparr>rc_color_map = Val [(''East'', '''')]\<rparr>
       = Inr \<lparr>c_color_map = Some [(''East'', '''')]\<rparr>"
  by (simp add: HEX_match_def validate_colors_def validate_colorway_def valid_color_def
      isinstance_str_def validate_ColorsSpec_def)

text \<open>
  Claim C9, amended: \<open>_valid_color\<close> holds of every string (hex, named, malformed hex
  or empty), so the two color validators reject no entry at all: every color map and
  every colorway whose entries are strings is returned unchanged.
\<close>

theorem C9_colors_never_rejected:
  "valid_color c \<and> validate_colors v = Inr v \<and> validate_colorway w = Inr w
   \<and> validate_ColorsSpec \<lparr>rc_color_map = Val v\<rparr> = Inr \<lparr>c_color_map = Some v\<rparr>"
  by (simp add: valid_color_any validate_colors_accepts validate_colorway_accepts
      validate_ColorsSpec_def)

subsection \<open>The caller's dataframe\<close>

lemma normalize_x_store: "take (length s) (fst (normalize_x lib s r x)) = s"
  by (auto simp: normalize_x_def frame_copy_def store_setitem_def
      split: option.splits sum.splits)

lemma add_traces_store: "take (length s) (fst (add_traces lib s r model)) = s"
  by (cases "ch_type (vs_chart model)")
    (simp_all add: add_traces_def add_scatter_family_def split_beta normalize_x_store
      split: sum.splits)

lemma compile_figure_store: "take (length s) (fst (compile_figure lib s r spec)) = s"
  by (simp add: compile_figure_def split_beta Let_def add_traces_store split: sum.splits)

lemma compile_payload_store:
  "take (length s) (fst (compile_payload lib dumps s r spec)) = s"
  by (simp add: compile_payload_def split_beta Let_def compile_figure_store
      split: sum.splits option.splits)

lemma take_nth_same: "take n s' = s \<Longrightarrow> i < length s \<Longrightarrow> s' ! i = s ! i"
  by (metis nth_take length_take min_less_iff_conj)

text \<open>
  Claim C8: the compiler never mutates its inputs. Whatever the spec and whether the
  call succeeds or fails, every dataframe that existed before \<open>compile_figure\<close> or
  \<open>compile_payload\<close> is the same afterwards (columns, values and dtypes), in
  particular the one the caller passed; the date coercion writes only into a dataframe
  allocated during the call.
\<close>

theorem C8_inputs_not_mutated:
  "take (length s) (fst (compile_figure lib s r spec)) = s
   \<and> take (length s) (fst (compile_payload lib dumps s r spec)) = s
   \<and> (r < length s \<longrightarrow>
        fst (compile_figure lib s r spec) ! r = s ! r
        \<and> fst (compile_payload lib dumps s r spec) ! r = s ! r)"
  using compile_figure_store [of s lib r spec] compile_payload_store [of s lib dumps r spec]
  by (metis take_nth_same)

text \<open>
  At the example table with a library that does convert the \<open>x\<close> column: the store
  holds a second dataframe after the call, which differs from the caller's, and the
  caller's is unchanged.
\<close>

theorem C8_inputs_not_mutated_witness:
  "(0::nat) < length [example_frame]
   \<and> fst (compile_figure converting_lib [example_frame] 0
            (SpecModel (model_spec CT_line sales_by_region))) ! 0 = example_frame
   \<and> length (fst (compile_figure converting_lib [example_frame] 0
                    (SpecModel (model_spec CT_line sales_by_region)))) = 2
   \<and> fst (compile_figure converting_lib [example_frame] 0
            (SpecModel (model_spec CT_line sales_by_region))) ! 1 \<noteq> example_frame"
proof -
  have valid: "(0::nat) < length [example_frame]"
    by simp
  have "fst (compile_figure converting_lib [example_frame] 0
               (SpecModel (model_spec CT_line sales_by_region))) ! 0 = [example_frame] ! 0"
    using C8_inputs_not_mutated
      [of "[example_frame]" converting_lib 0 "SpecModel (model_spec CT_line sales_by_region)"
          working_dumps]
      valid
    by blast
  moreover have
    "length (fst (compile_figure converting_lib [example_frame] 0
                    (SpecModel (model_spec CT_line sales_by_region)))) = 2
     \<and> fst (compile_figure converting_lib [example_frame] 0
              (SpecModel (model_spec CT_line sales_by_region))) ! 1 \<noteq> example_frame"
    by code_simp
  ultimately show ?thesis
    by simp
qed

subsection \<open>Parse errors and validation errors\<close>

text \<open>
  Claim C4, evaluated where the code departs from it. A text that is not JSON is
  reported as a \<open>SpecValidationError\<close>, not a \<open>SpecParseError\<close>; and the well-formed
  object \<open>{"chart": {"type": "heatmap"}}\<close>, which only lacks the required \<open>data\<close>
  section, is reported as a \<open>SpecParseError\<close>, not a \<open>SpecValidationError\<close>: the
  heatmap check of the root validator reads \<open>data.x\<close> while \<open>data\<close> is \<open>None\<close>. The
  well-formed object \<open>{}\<close> is reported as a \<open>SpecValidationError\<close>, as the claim says.
\<close>

theorem C4_error_classes_at_failing_inputs:
  "example_loads ''{not json'' = None
   \<and> parse_viz_spec example_loads (SpecStr ''{not json'')
       = Inl (SpecValidationError [([], WrongType)])
   \<and> parse_viz_spec example_loads
         (SpecObj (Mapping (empty_raw_VizSpec
            \<lparr>rv_chart := Val (empty_raw_ChartSpec\<lparr>rch_type := Val ''heatmap''\<rparr>)\<rparr>)))
       = Inl (SpecParseError ''NoneType object has no attribute x'')
   \<and> parse_viz_spec example_loads (SpecStr ''{}'')
       = Inl (SpecValidationError [([''chart''], FieldRequired), ([''data''], FieldRequired)])"
  by code_simp

subsection \<open>The secondary y-axis\<close>

text \<open>
  Claim C5, evaluated where the code departs from it. With no \<open>layout\<close> section and
  \<open>y2_for = ["sales"]\<close>, the single trace is routed to \<open>y2\<close> and the layout has no
  secondary axis; with a \<open>layout\<close> section and \<open>y2_for = ["profit"]\<close>, a column the
  chart does not plot, no trace is routed to \<open>y2\<close> and the layout has the secondary
  axis.
\<close>

theorem C5_yaxis2_at_failing_inputs:
  "map_sum id (\<lambda>fig. (map t_yaxis (fig_data fig), ly_yaxis2 (fig_layout fig)))
     (snd (compile_figure example_lib [example_frame] 0
            (SpecModel (model_spec CT_line (sales_on_y2 ''sales'')))))
   = Inr ([Some ''y2''], None)
   \<and> map_sum id (\<lambda>fig. (map t_yaxis (fig_data fig), ly_yaxis2 (fig_layout fig)))
     (snd (compile_figure example_lib [example_frame] 0
            (SpecModel ((model_spec CT_line (sales_on_y2 ''profit''))
                          \<lparr>vs_layout := Some empty_LayoutSpec\<rparr>))))
   = Inr ([None], Some \<lparr>y2_title = None, y2_overlaying = ''y'', y2_side = ''right''\<rparr>)"
  by code_simp

subsection \<open>The serialization check\<close>

text \<open>
  Claim C6, as stated: a payload that \<open>json.dumps\<close> cannot encode makes the call fail
  with a \<open>CompileError\<close>. At the example table and an encoder that fails, the call
  fails with the \<open>TypeError\<close> of \<open>json.dumps\<close>, which is no \<open>CompileError\<close>.
\<close>

theorem C6_not_a_CompileError:
  "snd (compile_payload example_lib failing_dumps [example_frame] 0
          (SpecModel (model_spec CT_bar sales_by_region)))
     = Inl (Uncaught (TypeError ''not JSON serializable''))
   \<and> \<not> raises_CompileError
         (snd (compile_payload example_lib failing_dumps [example_frame] 0
                 (SpecModel (model_spec CT_bar sales_by_region))))"
  by code_simp

text \<open>
  Claim C6, amended: when the spec parses and the figure compiles but \<open>json.dumps\<close>
  cannot encode the payload, \<open>compile_payload\<close> fails with the \<open>TypeError\<close> that
  \<open>json.dumps\<close> raises (not wrapped in a \<open>CompileError\<close>); and every payload that
  \<open>compile_payload\<close> returns is one that \<open>json.dumps\<close> encoded.
\<close>

theorem C6_serialization_check:
  assumes "parse_viz_spec (json_loads lib) spec = Inr model"
    and "compile_figure lib s r (SpecModel model) = (s', Inr fig)"
  shows "(dumps \<lparr>p_figure = fig, p_plotly_config = vs_plotly_config model,
                 p_viz_spec_version = vs_version model\<rparr> = None \<longrightarrow>
            compile_payload lib dumps s r spec
              = (s', Inl (Uncaught (TypeError ''not JSON serializable''))))
       \<and> (\<forall>s'' p. compile_payload lib dumps s r spec = (s'', Inr p) \<longrightarrow> dumps p \<noteq> None)"
  using assms
  by (auto simp: compile_payload_def Let_def split: sum.splits option.splits prod.splits)

theorem C6_serialization_check_witness:
  "parse_viz_spec (json_loads example_lib) (SpecModel (model_spec CT_pie sales_by_region))
     = Inr (model_spec CT_pie sales_by_region)
   \<and> (\<exists>fig. compile_figure example_lib [example_frame] 0
               (SpecModel (model_spec CT_pie sales_by_region)) = ([example_frame], Inr fig)
         \<and> failing_dumps \<lparr>p_figure = fig, p_plotly_config = None,
                           p_viz_spec_version = ''1.0''\<rparr> = None)
   \<and> compile_payload example_lib failing_dumps [example_frame] 0
         (SpecModel (model_spec CT_pie sales_by_region))
       = ([example_frame], Inl (Uncaught (TypeError ''not JSON serializable'')))
   \<and> (\<exists>p. compile_payload example_lib working_dumps [example_frame] 0
             (SpecModel (model_spec CT_pie sales_by_region)) = ([example_frame], Inr p)
          \<and> working_dumps p \<noteq> None)"
proof -
  have parsed:
    "parse_viz_spec (json_loads example_lib) (SpecModel (model_spec CT_pie sales_by_region))
       = Inr (model_spec CT_pie sales_by_region)"
    by (simp add: parse_viz_spec_def)
  have shape:
    "fst (compile_figure example_lib [example_frame] 0
            (SpecModel (model_spec CT_pie sales_by_region))) = [example_frame]
     \<and> \<not> isl (snd (compile_figure example_lib [example_frame] 0
                       (SpecModel (model_spec CT_pie sales_by_region))))"
    by code_simp
  then obtain fig where
    "snd (compile_figure example_lib [example_frame] 0
            (SpecModel (model_spec CT_pie sales_by_region))) = Inr fig"
    by (cases "snd (compile_figure example_lib [example_frame] 0
                      (SpecModel (model_spec CT_pie sales_by_region)))") auto
  with shape have compiled:
    "compile_figure example_lib [example_frame] 0
       (SpecModel (model_spec CT_pie sales_by_region)) = ([example_frame], Inr fig)"
    by (simp add: prod_eq_iff)
  have fails: "failing_dumps \<lparr>p_figure = fig, p_plotly_config = None,
                              p_viz_spec_version = ''1.0''\<rparr> = None"
    by (simp add: failing_dumps_def)
  have cfg: "vs_plotly_config (model_spec CT_pie sales_by_region) = None"
    "vs_version (model_spec CT_pie sales_by_region) = ''1.0''"
    by (simp_all add: model_spec_def)
  have raised:
    "compile_payload example_lib failing_dumps [example_frame] 0
       (SpecModel (model_spec CT_pie sales_by_region))
     = ([example_frame], Inl (Uncaught (TypeError ''not JSON serializable'')))"
    using C6_serialization_check [OF parsed compiled, of failing_dumps] fails cfg
    by simp
  have returned:
    "\<exists>p. compile_payload example_lib working_dumps [example_frame] 0
            (SpecModel (model_spec CT_pie sales_by_region)) = ([example_frame], Inr p)
         \<and> working_dumps p \<noteq> None"
    using parsed compiled
    by (simp add: compile_payload_def working_dumps_def)
  show ?thesis
    using parsed compiled fails raised returned by blast
qed

subsection \<open>Semantic checks\<close>

lemma validate_VizSpec_Inr:
  assumes "validate_VizSpec r = Inr spec"
  shows "semantic_checks (Some (vs_chart spec)) (Some (vs_data spec)) = Inr ()"
  using assms
  by (auto simp: validate_VizSpec_def Let_def split_beta
      split: sum.splits pyexc.splits list.splits option.splits)

lemma semantic_checks_heatmap:
  assumes "semantic_checks (Some c) (Some d) = Inr ()" and "ch_type c = CT_heatmap"
  shows "heatmap_missing d = []"
  using assms
  by (auto simp: semantic_checks_def check_heatmap_def split: if_splits)

lemma heatmap_missing_Nil:
  "heatmap_missing d = [] \<longleftrightarrow> d_x d \<noteq> None \<and> d_y d \<noteq> None \<and> d_z d \<noteq> None"
  by (auto simp: heatmap_missing_def)

lemma semantic_checks_list_y_series:
  assumes "isinstance_list (d_y d)" and "series_by d"
  shows "\<exists>m. semantic_checks c (Some d) = Inl (ValueError m)"
  using assms
  by (auto simp: semantic_checks_def check_heatmap_def check_y2_for_def
      check_list_y_series_def Let_def
      split: option.splits if_splits yspec.splits prod.splits)

lemma validate_VizSpec_list_y_series:
  assumes "rv_data raw = Val rd" and "validate_DataSpec rd = Inr d"
    and "isinstance_list (d_y d)" and "series_by d"
  shows "\<exists>es m. validate_VizSpec raw = Inl (ValidationError (es @ [([], m)]))"
proof -
  have field: "required_field ''data'' validate_DataSpec (rv_data raw) = ([], Some d)"
    using assms(1,2) by simp
  obtain e2 chart where chart:
    "required_field ''chart'' validate_ChartSpec (rv_chart raw) = (e2, chart)"
    by (cases "required_field ''chart'' validate_ChartSpec (rv_chart raw)") auto
  obtain m where "semantic_checks chart (Some d) = Inl (ValueError m)"
    using semantic_checks_list_y_series [OF assms(3,4)] by blast
  then show ?thesis
    by (simp add: validate_VizSpec_def Let_def split_beta field chart)
qed

text \<open>A data section that validates keeps its list \<open>y\<close> and its \<open>series.by\<close>.\<close>

lemma at_loc_Nil: "at_loc nm es = [] \<longleftrightarrow> es = []"
  by (simp add: at_loc_def)

lemma validated_list_y:
  assumes "fst (optional_field ''y'' None unique_y_list (Val (YList l))) = []"
  shows "snd (optional_field ''y'' None unique_y_list (Val (YList l))) = Some (YList l)"
  using assms by (auto simp: unique_y_list_def at_loc_Nil split: if_splits)

lemma validated_series_by:
  assumes "rs_by rs = Val g"
  shows "snd (optional_field ''series'' None validate_SeriesSpec (Val rs))
           = Some \<lparr>s_by = Some g\<rparr>"
  using assms by (simp add: validate_SeriesSpec_def accept_def)

lemma validate_DataSpec_list_y_series:
  assumes "validate_DataSpec rd = Inr d" and "rd_y rd = Val (YList l)"
    and "rd_series rd = Val rs" and "rs_by rs = Val g" and "g \<noteq> []"
  shows "isinstance_list (d_y d) \<and> series_by d"
proof -
  from assms(1) have
    ey: "fst (optional_field ''y'' None unique_y_list (rd_y rd)) = []"
    and y: "d_y d = snd (optional_field ''y'' None unique_y_list (rd_y rd))"
    and sby: "d_series d = snd (optional_field ''series'' None validate_SeriesSpec (rd_series rd))"
    by (auto simp: validate_DataSpec_def Let_def split_beta split: if_splits)
  have "d_y d = Some (YList l)"
    using validated_list_y [of l] ey y assms(2) by simp
  moreover have "d_series d = Some \<lparr>s_by = Some g\<rparr>"
    using validated_series_by [OF assms(4)] sby assms(3) by simp
  ultimately show ?thesis
    using assms(5) by (simp add: isinstance_list_def series_by_def truthy_def)
qed

lemma validate_DataSpec_Inl:
  assumes "validate_DataSpec rd = Inl es"
  shows "es \<noteq> []"
  using assms by (auto simp: validate_DataSpec_def Let_def split_beta split: if_splits)

text \<open>The checks on a spec whose data section is \<open>None\<close>.\<close>

lemma semantic_checks_heatmap_no_data:
  assumes "ch_type c = CT_heatmap"
  shows "semantic_checks (Some c) None
           = Inl (AttributeError ''NoneType object has no attribute x'')"
  using assms by (simp add: semantic_checks_def check_heatmap_def)

lemma semantic_checks_no_data:
  assumes "\<forall>c. chart = Some c \<longrightarrow> ch_type c \<noteq> CT_heatmap"
  shows "semantic_checks chart None = Inr ()
         \<or> (\<exists>m. semantic_checks chart None = Inl (ValueError m))"
  using assms
  by (cases chart)
    (auto simp: semantic_checks_def check_heatmap_def check_y2_for_def
      check_list_y_series_def check_histogram_def check_area_def)

lemma validate_VizSpec_no_data:
  assumes "required_field ''data'' validate_DataSpec (rv_data raw) = (e3, None)"
    and "e3 \<noteq> []"
    and "\<forall>c. snd (required_field ''chart'' validate_ChartSpec (rv_chart raw)) = Some c
             \<longrightarrow> ch_type c \<noteq> CT_heatmap"
  shows "\<exists>es. es \<noteq> [] \<and> validate_VizSpec raw = Inl (ValidationError es)"
proof -
  obtain e2 chart where chart:
    "required_field ''chart'' validate_ChartSpec (rv_chart raw) = (e2, chart)"
    by (cases "required_field ''chart'' validate_ChartSpec (rv_chart raw)") auto
  have "\<forall>c. chart = Some c \<longrightarrow> ch_type c \<noteq> CT_heatmap"
    using assms(3) chart by simp
  then consider "semantic_checks chart None = Inr ()"
    | m where "semantic_checks chart None = Inl (ValueError m)"
    using semantic_checks_no_data [of chart] by blast
  then show ?thesis
  proof cases
    case 1
    then show ?thesis
      using assms(2)
      by (simp add: validate_VizSpec_def Let_def split_beta assms(1) chart
          split: list.splits option.splits)
  next
    case 2
    then show ?thesis
      by (simp add: validate_VizSpec_def Let_def split_beta assms(1) chart)
  qed
qed

lemma validate_VizSpec_heatmap_no_data:
  assumes "heatmap_with_invalid_data raw"
  shows "validate_VizSpec raw = Inl (AttributeError ''NoneType object has no attribute x'')"
proof -
  obtain e2 chart where chart:
    "required_field ''chart'' validate_ChartSpec (rv_chart raw) = (e2, chart)"
    by (cases "required_field ''chart'' validate_ChartSpec (rv_chart raw)") auto
  obtain e3 data where data:
    "required_field ''data'' validate_DataSpec (rv_data raw) = (e3, data)"
    by (cases "required_field ''data'' validate_DataSpec (rv_data raw)") auto
  from assms chart data obtain c where "chart = Some c" and "ch_type c = CT_heatmap"
    and "data = None"
    by (auto simp: heatmap_with_invalid_data_def split: option.splits)
  then show ?thesis
    by (simp add: validate_VizSpec_def Let_def split_beta chart data
        semantic_checks_heatmap_no_data)
qed

lemma list_y_with_series_by_not_validated:
  assumes "rv_data raw = Val rd" and "rd_y rd = Val (YList l)"
    and "rd_series rd = Val rs" and "rs_by rs = Val g" and "g \<noteq> []"
    and "\<not> heatmap_with_invalid_data raw"
  shows "\<exists>es. es \<noteq> [] \<and> validate_VizSpec raw = Inl (ValidationError es)"
proof (cases "validate_DataSpec rd")
  case (Inr d)
  have "isinstance_list (d_y d) \<and> series_by d"
    using validate_DataSpec_list_y_series [OF Inr assms(2-5)] .
  then obtain es m where "validate_VizSpec raw = Inl (ValidationError (es @ [([], m)]))"
    using validate_VizSpec_list_y_series [OF assms(1) Inr] by blast
  then show ?thesis
    by simp
next
  case (Inl es)
  have field: "required_field ''data'' validate_DataSpec (rv_data raw)
                 = (at_loc ''data'' es, None)"
    using assms(1) Inl by simp
  have ne: "at_loc ''data'' es \<noteq> []"
    using validate_DataSpec_Inl [OF Inl] by (simp add: at_loc_Nil)
  have "\<forall>c. snd (required_field ''chart'' validate_ChartSpec (rv_chart raw)) = Some c
          \<longrightarrow> ch_type c \<noteq> CT_heatmap"
    using assms(6) field by (auto simp: heatmap_with_invalid_data_def)
  then show ?thesis
    using validate_VizSpec_no_data [OF field ne] by blast
qed

lemma parse_viz_spec_input:
  assumes "inp = SpecObj (Mapping raw) \<or> (inp = SpecStr txt \<and> loads txt = Some (Mapping raw))"
  shows "parse_viz_spec loads inp = reraise (validate_VizSpec raw)"
  using assms by (auto simp: parse_viz_spec_def parse_obj_def parse_raw_def)

lemma compile_figure_not_parsed:
  assumes "parse_viz_spec (json_loads lib) inp = Inl e"
  shows "compile_figure lib s r inp = (s, Inl e)"
  using assms by (simp add: compile_figure_def)

text \<open>
  Claim C2, on every input. A spec whose data section holds a list \<open>y\<close> together with
  \<open>series.by\<close> (a non-empty name: the code tests \<open>data.series and data.series.by\<close>, and
  the engine reads an empty name as no series split) never parses, whether it comes as
  an object or as JSON text, so \<open>compile_figure\<close> raises the error of the parser and
  builds nothing. The error is a \<open>SpecValidationError\<close> with at least one entry, as the
  claim says, except in one case: when the chart section validates to a heatmap chart
  and the data section has an error of its own, the heatmap check reads \<open>data.x\<close> while
  \<open>data\<close> is \<open>None\<close>, and the error is a \<open>SpecParseError\<close>.
\<close>

theorem C2_list_y_with_series_by:
  assumes "rv_data raw = Val rd" and "rd_y rd = Val (YList l)"
    and "rd_series rd = Val rs" and "rs_by rs = Val g" and "g \<noteq> []"
    and "inp = SpecObj (Mapping raw)
         \<or> (inp = SpecStr txt \<and> json_loads lib txt = Some (Mapping raw))"
  shows "(\<not> heatmap_with_invalid_data raw \<longrightarrow>
            (\<exists>es. es \<noteq> []
               \<and> parse_viz_spec (json_loads lib) inp = Inl (SpecValidationError es)
               \<and> compile_figure lib s r inp = (s, Inl (SpecValidationError es))))
       \<and> (heatmap_with_invalid_data raw \<longrightarrow>
            parse_viz_spec (json_loads lib) inp
              = Inl (SpecParseError ''NoneType object has no attribute x'')
            \<and> compile_figure lib s r inp
              = (s, Inl (SpecParseError ''NoneType object has no attribute x'')))"
proof -
  note parsed = parse_viz_spec_input [where loads = "json_loads lib", OF assms(6)]
  have valid: "\<exists>es. es \<noteq> []
               \<and> parse_viz_spec (json_loads lib) inp = Inl (SpecValidationError es)
               \<and> compile_figure lib s r inp = (s, Inl (SpecValidationError es))"
    if "\<not> heatmap_with_invalid_data raw"
  proof -
    from that obtain es where es: "es \<noteq> []"
      and "validate_VizSpec raw = Inl (ValidationError es)"
      using list_y_with_series_by_not_validated [OF assms(1-5)] by blast
    then have p: "parse_viz_spec (json_loads lib) inp = Inl (SpecValidationError es)"
      using parsed by (simp add: reraise_def)
    show ?thesis
      using es p compile_figure_not_parsed [OF p] by blast
  qed
  have invalid: "parse_viz_spec (json_loads lib) inp
              = Inl (SpecParseError ''NoneType object has no attribute x'')
            \<and> compile_figure lib s r inp
              = (s, Inl (SpecParseError ''NoneType object has no attribute x''))"
    if "heatmap_with_invalid_data raw"
  proof -
    from that have "validate_VizSpec raw
                 = Inl (AttributeError ''NoneType object has no attribute x'')"
      by (rule validate_VizSpec_heatmap_no_data)
    then have p: "parse_viz_spec (json_loads lib) inp
                 = Inl (SpecParseError ''NoneType object has no attribute x'')"
      using parsed by (simp add: reraise_def)
    show ?thesis
      using p compile_figure_not_parsed [OF p] by blast
  qed
  show ?thesis
    using valid invalid by blast
qed

text \<open>
  The scenario of the spec, \<open>data: {y: ["a", "b"], series: {by: "c"}}\<close> in a line
  chart, is rejected with the validation error of the check. The same data section with
  an \<open>x\<close> that is no string, in a heatmap chart, is rejected with a \<open>SpecParseError\<close>.
\<close>

theorem C2_list_y_with_series_by_witness:
  "\<not> heatmap_with_invalid_data (raw_spec ''line'' list_y_and_by_raw)
   \<and> parse_viz_spec (json_loads example_lib)
        (SpecObj (Mapping (raw_spec ''line'' list_y_and_by_raw)))
       = Inl (SpecValidationError [([], ListYWithSeriesBy)])
   \<and> heatmap_with_invalid_data (raw_spec ''heatmap'' list_y_and_by_bad_x_raw)
   \<and> validate_DataSpec list_y_and_by_bad_x_raw = Inl [([''x''], WrongType)]
   \<and> parse_viz_spec (json_loads example_lib)
        (SpecObj (Mapping (raw_spec ''heatmap'' list_y_and_by_bad_x_raw)))
       = Inl (SpecParseError ''NoneType object has no attribute x'')
   \<and> compile_figure example_lib [example_frame] 0
        (SpecObj (Mapping (raw_spec ''heatmap'' list_y_and_by_bad_x_raw)))
       = ([example_frame], Inl (SpecParseError ''NoneType object has no attribute x''))"
proof -
  let ?line = "raw_spec ''line'' list_y_and_by_raw"
  let ?heat = "raw_spec ''heatmap'' list_y_and_by_bad_x_raw"
  have l1: "rv_data ?line = Val list_y_and_by_raw"
    and l2: "rd_y list_y_and_by_raw = Val (YList [''a'', ''b''])"
    and l3: "rd_series list_y_and_by_raw = Val \<lparr>rs_by = Val ''c''\<rparr>"
    and l4: "rs_by \<lparr>rs_by = Val ''c''\<rparr> = Val ''c''"
    and l5: "''c'' \<noteq> []"
    by code_simp+
  have h1: "rv_data ?heat = Val list_y_and_by_bad_x_raw"
    and h2: "rd_y list_y_and_by_bad_x_raw = Val (YList [''a'', ''b''])"
    and h3: "rd_series list_y_and_by_bad_x_raw = Val \<lparr>rs_by = Val ''c''\<rparr>"
    by code_simp+
  have l6: "\<not> heatmap_with_invalid_data ?line"
    by code_simp
  have h6: "heatmap_with_invalid_data ?heat"
    by code_simp
  have l7: "parse_viz_spec (json_loads example_lib) (SpecObj (Mapping ?line))
              = Inl (SpecValidationError [([], ListYWithSeriesBy)])"
    by code_simp
  have h7: "validate_DataSpec list_y_and_by_bad_x_raw = Inl [([''x''], WrongType)]"
    by code_simp
  have line: "\<exists>es. es \<noteq> []
      \<and> parse_viz_spec (json_loads example_lib) (SpecObj (Mapping ?line))
          = Inl (SpecValidationError es)
      \<and> compile_figure example_lib [example_frame] 0 (SpecObj (Mapping ?line))
          = ([example_frame], Inl (SpecValidationError es))"
    using C2_list_y_with_series_by
      [of ?line list_y_and_by_raw "[''a'', ''b'']" "\<lparr>rs_by = Val ''c''\<rparr>" "''c''"
          "SpecObj (Mapping ?line)" "''{}''" example_lib "[example_frame]" 0,
       OF l1 l2 l3 l4 l5]
      l6
    by blast
  have heat: "parse_viz_spec (json_loads example_lib) (SpecObj (Mapping ?heat))
                = Inl (SpecParseError ''NoneType object has no attribute x'')
      \<and> compile_figure example_lib [example_frame] 0 (SpecObj (Mapping ?heat))
          = ([example_frame], Inl (SpecParseError ''NoneType object has no attribute x''))"
    using C2_list_y_with_series_by
      [of ?heat list_y_and_by_bad_x_raw "[''a'', ''b'']" "\<lparr>rs_by = Val ''c''\<rparr>" "''c''"
          "SpecObj (Mapping ?heat)" "''{}''" example_lib "[example_frame]" 0,
       OF h1 h2 h3 l4 l5]
      h6
    by blast
  show ?thesis
    using l6 l7 h6 h7 line heat by blast
qed

text \<open>
  The earlier schema of \<^verbatim>\<open>stuff.md\<close> has no check of a list \<open>y\<close> with \<open>series.by\<close>: it
  accepts the scenario of the spec.
\<close>

lemma stuff_schema_accepts_list_y_with_series_by:
  "validate_VizSpec_stuff (raw_spec ''line'' list_y_and_by_raw)
     = Inr ((model_spec CT_line list_y_and_by)
              \<lparr>vs_chart := (vs_chart (model_spec CT_line list_y_and_by))
                              \<lparr>ch_mode := Some Mode_lines\<rparr>\<rparr>)"
  by code_simp

text \<open>
  An empty \<open>series.by\<close> is no series split: the spec validates, the engine finds no
  group column, and the line chart has one trace for each column of the list \<open>y\<close>.
\<close>

lemma empty_series_by_is_no_split:
  "validate_VizSpec
     (raw_spec ''line''
        (empty_raw_DataSpec
           \<lparr>rd_x := Val ''store'', rd_y := Val (YList [''sales'', ''region'']),
            rd_series := Val \<lparr>rs_by = Val []\<rparr>\<rparr>))
     = Inr ((model_spec CT_line
               (empty_DataSpec
                  \<lparr>d_x := Some ''store'', d_y := Some (YList [''sales'', ''region'']),
                   d_series := Some \<lparr>s_by = Some []\<rparr>\<rparr>))
              \<lparr>vs_chart := \<lparr>ch_type = CT_line, ch_mode = Some Mode_lines,
                             ch_orientation = None, ch_barmode = None,
                             ch_histnorm = None\<rparr>\<rparr>)
   \<and> group_col_of
         (empty_DataSpec
            \<lparr>d_x := Some ''store'', d_y := Some (YList [''sales'', ''region'']),
             d_series := Some \<lparr>s_by = Some []\<rparr>\<rparr>) = None
   \<and> map_sum id (\<lambda>fig. map t_name (fig_data fig))
        (snd (compile_figure example_lib [example_frame] 0
               (SpecObj (Mapping (raw_spec ''line''
                  (empty_raw_DataSpec
                     \<lparr>rd_x := Val ''store'', rd_y := Val (YList [''sales'', ''region'']),
                      rd_series := Val \<lparr>rs_by = Val []\<rparr>\<rparr>))))))
     = Inr [Some ''sales'', Some ''region'']"
  by code_simp

subsection \<open>The heatmap fallback\<close>

lemma add_heatmap_long:
  assumes "truthy (d_x (vs_data spec))" and "truthy_y (d_y (vs_data spec))"
    and "truthy (d_z (vs_data spec))"
    and "add_heatmap lib df spec = Inr ts"
  shows "\<exists>t. ts = [t] \<and> t_x t \<noteq> None"
  using assms
  by (auto simp: add_heatmap_def Let_def ebind_def truthy_def truthy_y_def
      split: option.splits yspec.splits sum.splits if_splits)

lemma add_heatmap_fallback:
  assumes "\<not> (truthy (d_x (vs_data spec)) \<and> truthy_y (d_y (vs_data spec))
              \<and> truthy (d_z (vs_data spec)))"
  shows "add_heatmap lib df spec = Inr [fallback_trace df]"
  using assms
  by (auto simp: add_heatmap_def Let_def fallback_trace_def)

lemma fallback_trace_x: "t_x (fallback_trace df) = None"
  by (simp add: fallback_trace_def new_trace_def)

text \<open>
  What validation establishes of a heatmap spec, and what the builder tests. A spec that
  validates with chart type heatmap has \<open>x\<close>, \<open>y\<close> and \<open>z\<close> different from \<open>None\<close>
  (\<open>getattr(data, k) is None\<close>); the builder takes the long-form path when the three are
  truthy (\<open>if x and y and z\<close>) and the fallback branch otherwise.
\<close>

lemma validated_heatmap_bound:
  assumes "validate_VizSpec raw = Inr spec" and "ch_type (vs_chart spec) = CT_heatmap"
  shows "d_x (vs_data spec) \<noteq> None \<and> d_y (vs_data spec) \<noteq> None
         \<and> d_z (vs_data spec) \<noteq> None
         \<and> (truthy (d_x (vs_data spec)) \<and> truthy_y (d_y (vs_data spec))
              \<and> truthy (d_z (vs_data spec)) \<longrightarrow>
              add_heatmap lib df spec \<noteq> Inr [fallback_trace df])
         \<and> (\<not> (truthy (d_x (vs_data spec)) \<and> truthy_y (d_y (vs_data spec))
                 \<and> truthy (d_z (vs_data spec))) \<longrightarrow>
              add_heatmap lib df spec = Inr [fallback_trace df])"
proof -
  have "heatmap_missing (vs_data spec) = []"
    using validate_VizSpec_Inr [OF assms(1)] assms(2) by (rule semantic_checks_heatmap)
  then have bound: "d_x (vs_data spec) \<noteq> None \<and> d_y (vs_data spec) \<noteq> None
      \<and> d_z (vs_data spec) \<noteq> None"
    by (simp add: heatmap_missing_Nil)
  have long: "add_heatmap lib df spec \<noteq> Inr [fallback_trace df]"
    if "truthy (d_x (vs_data spec)) \<and> truthy_y (d_y (vs_data spec))
        \<and> truthy (d_z (vs_data spec))"
  proof
    assume "add_heatmap lib df spec = Inr [fallback_trace df]"
    with that obtain t where "[fallback_trace df] = [t]" and "t_x t \<noteq> None"
      using add_heatmap_long [of spec lib df "[fallback_trace df]"] by blast
    then show False
      using fallback_trace_x [of df] by auto
  qed
  show ?thesis
    using bound long add_heatmap_fallback [of spec lib df] by blast
qed

text \<open>
  Claim C10, evaluated where the code departs from it. The spec
  \<open>{chart: {type: "heatmap"}, data: {x: "", y: "region", z: "sales"}}\<close> validates: the
  heatmap check of \<^verbatim>\<open>VizSpec._semantic_checks\<close> tests \<open>getattr(data, k) is None\<close> and
  finds nothing missing. The builder tests \<open>if x and y and z\<close>, for which the empty \<open>x\<close>
  is not bound, so \<open>compile_figure\<close> returns the trace of the fallback branch, built
  from the raw values of the dataframe. The neighbouring histogram check tests
  truthiness (\<open>data.x or data.y\<close>) and rejects the same empty \<open>x\<close>; and
  \<^verbatim>\<open>_ensure_columns\<close> is given the names that are truthy, so that the empty name, which
  is no column of the table, raises nothing.
\<close>

theorem C10_fallback_reached:
  "validate_VizSpec (raw_spec ''heatmap'' heatmap_empty_x_raw)
     = Inr (model_spec CT_heatmap heatmap_empty_x)
   \<and> heatmap_missing heatmap_empty_x = []
   \<and> \<not> truthy (d_x heatmap_empty_x)
   \<and> compile_figure example_lib [example_frame] 0
        (SpecObj (Mapping (raw_spec ''heatmap'' heatmap_empty_x_raw)))
     = ([example_frame],
        Inr \<lparr>fig_data = [fallback_trace example_frame], fig_layout = empty_layout\<rparr>)
   \<and> validate_VizSpec (raw_spec ''histogram'' (empty_raw_DataSpec\<lparr>rd_x := Val ''''\<rparr>))
     = Inl (ValidationError [([], HistogramRequires)])
   \<and> referenced_columns heatmap_empty_x = [''region'', ''sales'']
   \<and> getvals example_frame '''' = Inl (Uncaught (KeyError ''''))"
  by code_simp

subsection \<open>Validating the serialized form again\<close>

lemma optional_field_again:
  assumes "fst (optional_field nm dflt v f) = []"
    and "\<And>x y. v x = Inr y \<Longrightarrow> v (ser y) = Inr y"
    and "\<And>d. dflt = Some d \<Longrightarrow> v (ser d) = Inr d"
  shows "optional_field nm dflt v (opt_raw ser (snd (optional_field nm dflt v f)))
         = ([], snd (optional_field nm dflt v f))"
proof (cases f)
  case Missing
  then show ?thesis
    using assms(3) by (cases dflt) (simp_all add: opt_raw_def)
next
  case Null
  then show ?thesis
    by (simp add: opt_raw_def)
next
  case Bad
  then show ?thesis
    using assms(1) by simp
next
  case (Val x)
  then show ?thesis
    using assms(1,2) by (cases "v x") (simp_all add: opt_raw_def)
qed

lemma accept_again: "accept x = Inr y \<Longrightarrow> accept y = Inr y"
  by (simp add: accept_def)

lemma bounded_again: "bounded lo hi x = Inr y \<Longrightarrow> bounded lo hi y = Inr y"
  by (auto simp: bounded_def split: if_splits)

lemma unique_y_list_again: "unique_y_list x = Inr y \<Longrightarrow> unique_y_list y = Inr y"
  by (auto simp: unique_y_list_def split: yspec.splits if_splits)

lemma LineShape_again:
  "enum_member LineShape_value LineShape_members (LineShape_value e) = Inr e"
  by (cases e) (simp_all add: enum_member_def enum_of_def LineShape_members_def)

lemma Mode_again: "enum_member Mode_value Mode_members (Mode_value e) = Inr e"
  by (cases e) (simp_all add: enum_member_def enum_of_def Mode_members_def)

lemma Orientation_again:
  "enum_member Orientation_value Orientation_members (Orientation_value e) = Inr e"
  by (cases e) (simp_all add: enum_member_def enum_of_def Orientation_members_def)

lemma BarMode_again: "enum_member BarMode_value BarMode_members (BarMode_value e) = Inr e"
  by (cases e) (simp_all add: enum_member_def enum_of_def BarMode_members_def)

lemma HistNorm_again:
  "enum_member HistNorm_value HistNorm_members (HistNorm_value e) = Inr e"
  by (cases e) (simp_all add: enum_member_def enum_of_def HistNorm_members_def)

lemma HoverMode_again:
  "enum_member HoverMode_value HoverMode_members (HoverMode_value e) = Inr e"
  by (cases e) (simp_all add: enum_member_def enum_of_def HoverMode_members_def)

lemma ChartType_again:
  "enum_member ChartType_value ChartType_members (ChartType_value e) = Inr e"
  by (cases e) (simp_all add: enum_member_def enum_of_def ChartType_members_def)

lemma enum_member_value:
  "enum_member val members s = Inr e \<Longrightarrow> val e = s"
  by (auto simp: enum_member_def enum_of_def find_Some_iff split: option.splits)

lemma validate_EncodingsSpec_again:
  assumes "validate_EncodingsSpec r = Inr m"
  shows "validate_EncodingsSpec (EncodingsSpec_dict m) = Inr m"
proof -
  let ?f1 = "optional_field ''marker_size'' (Some 6) (bounded 1 64) (re_marker_size r)"
  let ?f2 = "optional_field ''opacity'' (Some (9 / 10)) (bounded 0 1) (re_opacity r)"
  let ?f3 = "optional_field ''line_shape'' None
               (enum_member LineShape_value LineShape_members) (re_line_shape r)"
  from assms have e: "fst ?f1 = []" "fst ?f2 = []" "fst ?f3 = []"
    and m: "m = \<lparr>e_marker_size = snd ?f1, e_opacity = snd ?f2, e_line_shape = snd ?f3\<rparr>"
    by (auto simp: validate_EncodingsSpec_def Let_def split_beta split: if_splits)
  have a1: "optional_field ''marker_size'' (Some 6) (bounded 1 64)
              (opt_raw (\<lambda>a. a) (snd ?f1)) = ([], snd ?f1)"
    by (rule optional_field_again [OF e(1)]) (auto simp: bounded_def split: if_splits)
  have a2: "optional_field ''opacity'' (Some (9 / 10)) (bounded 0 1)
              (opt_raw (\<lambda>a. a) (snd ?f2)) = ([], snd ?f2)"
    by (rule optional_field_again [OF e(2)]) (auto simp: bounded_def split: if_splits)
  have a3: "optional_field ''line_shape'' None (enum_member LineShape_value LineShape_members)
              (opt_raw LineShape_value (snd ?f3)) = ([], snd ?f3)"
    by (rule optional_field_again [OF e(3)]) (simp_all add: LineShape_again)
  show ?thesis
    unfolding m by (simp add: validate_EncodingsSpec_def EncodingsSpec_dict_def a1 a2 a3)
qed
lemma validate_SeriesSpec_again:
  assumes "validate_SeriesSpec r = Inr m"
  shows "validate_SeriesSpec (SeriesSpec_dict m) = Inr m"
proof -
  let ?f1 = "optional_field ''by'' None accept (rs_by r)"
  from assms have e: "fst ?f1 = []"
    and m: "m = \<lparr>s_by = snd ?f1\<rparr>"
    by (auto simp: validate_SeriesSpec_def Let_def split_beta split: if_splits)
  have a1: "optional_field ''by'' None accept (opt_raw (\<lambda>a. a) (snd ?f1)) = ([], snd ?f1)"
    by (rule optional_field_again [OF e(1)]) (simp_all add: accept_def)
  show ?thesis
    unfolding m by (simp add: validate_SeriesSpec_def SeriesSpec_dict_def a1)
qed

lemma validate_AxisSpec_again:
  assumes "validate_AxisSpec r = Inr m"
  shows "validate_AxisSpec (AxisSpec_dict m) = Inr m"
proof -
  let ?f1 = "optional_field ''y2_for'' None accept (ra_y2_for r)"
  let ?f2 = "optional_field ''area_stackgroup'' None accept (ra_area_stackgroup r)"
  from assms have e: "fst ?f1 = []" "fst ?f2 = []"
    and m: "m = \<lparr>a_y2_for = snd ?f1, a_area_stackgroup = snd ?f2\<rparr>"
    by (auto simp: validate_AxisSpec_def Let_def split_beta split: if_splits)
  have a1: "optional_field ''y2_for'' None accept (opt_raw (\<lambda>a. a) (snd ?f1)) = ([], snd ?f1)"
    by (rule optional_field_again [OF e(1)]) (simp_all add: accept_def)
  have a2: "optional_field ''area_stackgroup'' None accept (opt_raw (\<lambda>a. a) (snd ?f2)) = ([], snd ?f2)"
    by (rule optional_field_again [OF e(2)]) (simp_all add: accept_def)
  show ?thesis
    unfolding m by (simp add: validate_AxisSpec_def AxisSpec_dict_def a1 a2)
qed

lemma validate_LabelsSpec_again:
  assumes "validate_LabelsSpec r = Inr m"
  shows "validate_LabelsSpec (LabelsSpec_dict m) = Inr m"
proof -
  let ?f1 = "optional_field ''y'' None accept (rl_y r)"
  let ?f2 = "optional_field ''series'' None accept (rl_series r)"
  from assms have e: "fst ?f1 = []" "fst ?f2 = []"
    and m: "m = \<lparr>l_y = snd ?f1, l_series = snd ?f2\<rparr>"
    by (auto simp: validate_LabelsSpec_def Let_def split_beta split: if_splits)
  have a1: "optional_field ''y'' None accept (opt_raw (\<lambda>a. a) (snd ?f1)) = ([], snd ?f1)"
    by (rule optional_field_again [OF e(1)]) (simp_all add: accept_def)
  have a2: "optional_field ''series'' None accept (opt_raw (\<lambda>a. a) (snd ?f2)) = ([], snd ?f2)"
    by (rule optional_field_again [OF e(2)]) (simp_all add: accept_def)
  show ?thesis
    unfolding m by (simp add: validate_LabelsSpec_def LabelsSpec_dict_def a1 a2)
qed

lemma validate_ColorsSpec_again:
  assumes "validate_ColorsSpec r = Inr m"
  shows "validate_ColorsSpec (ColorsSpec_dict m) = Inr m"
proof -
  let ?f1 = "optional_field ''color_map'' None validate_colors (rc_color_map r)"
  from assms have e: "fst ?f1 = []"
    and m: "m = \<lparr>c_color_map = snd ?f1\<rparr>"
    by (auto simp: validate_ColorsSpec_def Let_def split_beta split: if_splits)
  have a1: "optional_field ''color_map'' None validate_colors (opt_raw (\<lambda>a. a) (snd ?f1)) = ([], snd ?f1)"
    by (rule optional_field_again [OF e(1)]) (simp_all add: validate_colors_accepts)
  show ?thesis
    unfolding m by (simp add: validate_ColorsSpec_def ColorsSpec_dict_def a1)
qed

lemma validate_DataSpec_again:
  assumes "validate_DataSpec r = Inr m"
  shows "validate_DataSpec (DataSpec_dict m) = Inr m"
proof -
  let ?f1 = "optional_field ''frame_name'' None accept (rd_frame_name r)"
  let ?f2 = "optional_field ''x'' None accept (rd_x r)"
  let ?f3 = "optional_field ''y'' None unique_y_list (rd_y r)"
  let ?f4 = "optional_field ''z'' None accept (rd_z r)"
  let ?f5 = "optional_field ''text'' None accept (rd_text r)"
  let ?f6 = "optional_field ''name'' None accept (rd_name r)"
  let ?f7 = "optional_field ''series'' None validate_SeriesSpec (rd_series r)"
  let ?f8 = "optional_field ''axis'' None validate_AxisSpec (rd_axis r)"
  let ?f9 = "optional_field ''encodings'' None validate_EncodingsSpec (rd_encodings r)"
  let ?f10 = "optional_field ''labels'' None validate_LabelsSpec (rd_labels r)"
  let ?f11 = "optional_field ''colors'' None validate_ColorsSpec (rd_colors r)"
  from assms have e: "fst ?f1 = []" "fst ?f2 = []" "fst ?f3 = []" "fst ?f4 = []" "fst ?f5 = []" "fst ?f6 = []" "fst ?f7 = []" "fst ?f8 = []" "fst ?f9 = []" "fst ?f10 = []" "fst ?f11 = []"
    and m: "m = \<lparr>d_frame_name = snd ?f1, d_x = snd ?f2, d_y = snd ?f3, d_z = snd ?f4, d_text = snd ?f5, d_name = snd ?f6, d_series = snd ?f7, d_axis = snd ?f8, d_encodings = snd ?f9, d_labels = snd ?f10, d_colors = snd ?f11\<rparr>"
    by (auto simp: validate_DataSpec_def Let_def split_beta split: if_splits)
  have a1: "optional_field ''frame_name'' None accept (opt_raw (\<lambda>a. a) (snd ?f1)) = ([], snd ?f1)"
    by (rule optional_field_again [OF e(1)]) (simp_all add: accept_def)
  have a2: "optional_field ''x'' None accept (opt_raw (\<lambda>a. a) (snd ?f2)) = ([], snd ?f2)"
    by (rule optional_field_again [OF e(2)]) (simp_all add: accept_def)
  have a3: "optional_field ''y'' None unique_y_list (opt_raw (\<lambda>a. a) (snd ?f3)) = ([], snd ?f3)"
    by (rule optional_field_again [OF e(3)]) (auto simp: unique_y_list_def split: yspec.splits if_splits)
  have a4: "optional_field ''z'' None accept (opt_raw (\<lambda>a. a) (snd ?f4)) = ([], snd ?f4)"
    by (rule optional_field_again [OF e(4)]) (simp_all add: accept_def)
  have a5: "optional_field ''text'' None accept (opt_raw (\<lambda>a. a) (snd ?f5)) = ([], snd ?f5)"
    by (rule optional_field_again [OF e(5)]) (simp_all add: accept_def)
  have a6: "optional_field ''name'' None accept (opt_raw (\<lambda>a. a) (snd ?f6)) = ([], snd ?f6)"
    by (rule optional_field_again [OF e(6)]) (simp_all add: accept_def)
  have a7: "optional_field ''series'' None validate_SeriesSpec (opt_raw SeriesSpec_dict (snd ?f7)) = ([], snd ?f7)"
    by (rule optional_field_again [OF e(7)]) (simp_all add: validate_SeriesSpec_again)
  have a8: "optional_field ''axis'' None validate_AxisSpec (opt_raw AxisSpec_dict (snd ?f8)) = ([], snd ?f8)"
    by (rule optional_field_again [OF e(8)]) (simp_all add: validate_AxisSpec_again)
  have a9: "optional_field ''encodings'' None validate_EncodingsSpec (opt_raw EncodingsSpec_dict (snd ?f9)) = ([], snd ?f9)"
    by (rule optional_field_again [OF e(9)]) (simp_all add: validate_EncodingsSpec_again)
  have a10: "optional_field ''labels'' None validate_LabelsSpec (opt_raw LabelsSpec_dict (snd ?f10)) = ([], snd ?f10)"
    by (rule optional_field_again [OF e(10)]) (simp_all add: validate_LabelsSpec_again)
  have a11: "optional_field ''colors'' None validate_ColorsSpec (opt_raw ColorsSpec_dict (snd ?f11)) = ([], snd ?f11)"
    by (rule optional_field_again [OF e(11)]) (simp_all add: validate_ColorsSpec_again)
  show ?thesis
    unfolding m by (simp add: validate_DataSpec_def DataSpec_dict_def a1 a2 a3 a4 a5 a6 a7 a8 a9 a10 a11)
qed

lemma validate_LayoutSpec_again:
  assumes "validate_LayoutSpec r = Inr m"
  shows "validate_LayoutSpec (LayoutSpec_dict m) = Inr m"
proof -
  let ?f1 = "optional_field ''title'' None accept (rlo_title r)"
  let ?f2 = "optional_field ''xaxis_title'' None accept (rlo_xaxis_title r)"
  let ?f3 = "optional_field ''yaxis_title'' None accept (rlo_yaxis_title r)"
  let ?f4 = "optional_field ''yaxis2_title'' None accept (rlo_yaxis2_title r)"
  let ?f5 = "optional_field ''hovermode'' None (enum_member HoverMode_value HoverMode_members) (rlo_hovermode r)"
  let ?f6 = "optional_field ''template'' None accept (rlo_template r)"
  let ?f7 = "optional_field ''colorway'' None validate_colorway (rlo_colorway r)"
  let ?f8 = "optional_field ''legend'' None accept (rlo_legend r)"
  let ?f9 = "optional_field ''height'' (Some 450) (bounded 200 2000) (rlo_height r)"
  let ?f10 = "optional_field ''width'' None (bounded 200 4000) (rlo_width r)"
  from assms have e: "fst ?f1 = []" "fst ?f2 = []" "fst ?f3 = []" "fst ?f4 = []" "fst ?f5 = []" "fst ?f6 = []" "fst ?f7 = []" "fst ?f8 = []" "fst ?f9 = []" "fst ?f10 = []"
    and m: "m = \<lparr>lo_title = snd ?f1, lo_xaxis_title = snd ?f2, lo_yaxis_title = snd ?f3, lo_yaxis2_title = snd ?f4, lo_hovermode = snd ?f5, lo_template = snd ?f6, lo_colorway = snd ?f7, lo_legend = snd ?f8, lo_height = snd ?f9, lo_width = snd ?f10\<rparr>"
    by (auto simp: validate_LayoutSpec_def Let_def split_beta split: if_splits)
  have a1: "optional_field ''title'' None accept (opt_raw (\<lambda>a. a) (snd ?f1)) = ([], snd ?f1)"
    by (rule optional_field_again [OF e(1)]) (simp_all add: accept_def)
  have a2: "optional_field ''xaxis_title'' None accept (opt_raw (\<lambda>a. a) (snd ?f2)) = ([], snd ?f2)"
    by (rule optional_field_again [OF e(2)]) (simp_all add: accept_def)
  have a3: "optional_field ''yaxis_title'' None accept (opt_raw (\<lambda>a. a) (snd ?f3)) = ([], snd ?f3)"
    by (rule optional_field_again [OF e(3)]) (simp_all add: accept_def)
  have a4: "optional_field ''yaxis2_title'' None accept (opt_raw (\<lambda>a. a) (snd ?f4)) = ([], snd ?f4)"
    by (rule optional_field_again [OF e(4)]) (simp_all add: accept_def)
  have a5: "optional_field ''hovermode'' None (enum_member HoverMode_value HoverMode_members) (opt_raw HoverMode_value (snd ?f5)) = ([], snd ?f5)"
    by (rule optional_field_again [OF e(5)]) (simp_all add: HoverMode_again)
  have a6: "optional_field ''template'' None accept (opt_raw (\<lambda>a. a) (snd ?f6)) = ([], snd ?f6)"
    by (rule optional_field_again [OF e(6)]) (simp_all add: accept_def)
  have a7: "optional_field ''colorway'' None validate_colorway (opt_raw (\<lambda>a. a) (snd ?f7)) = ([], snd ?f7)"
    by (rule optional_field_again [OF e(7)]) (simp_all add: validate_colorway_accepts)
  have a8: "optional_field ''legend'' None accept (opt_raw (\<lambda>a. a) (snd ?f8)) = ([], snd ?f8)"
    by (rule optional_field_again [OF e(8)]) (simp_all add: accept_def)
  have a9: "optional_field ''height'' (Some 450) (bounded 200 2000) (opt_raw (\<lambda>a. a) (snd ?f9)) = ([], snd ?f9)"
    by (rule optional_field_again [OF e(9)]) (auto simp: bounded_def split: if_splits)
  have a10: "optional_field ''width'' None (bounded 200 4000) (opt_raw (\<lambda>a. a) (snd ?f10)) = ([], snd ?f10)"
    by (rule optional_field_again [OF e(10)]) (auto simp: bounded_def split: if_splits)
  show ?thesis
    unfolding m by (simp add: validate_LayoutSpec_def LayoutSpec_dict_def a1 a2 a3 a4 a5 a6 a7 a8 a9 a10)
qed
lemma optional_field_opt_raw:
  assumes "\<And>y. v (ser y) = Inr y"
  shows "optional_field nm dflt v (opt_raw ser a) = ([], a)"
  using assms by (cases a) (simp_all add: opt_raw_def)

lemma optional_field_Some:
  assumes "optional_field nm None v f = (es, Some a)"
  shows "\<exists>x. f = Val x \<and> v x = Inr a"
  using assms by (cases f) (auto split: sum.splits)

lemma required_field_Some:
  assumes "required_field nm v f = (es, Some a)"
  shows "\<exists>x. f = Val x \<and> v x = Inr a"
  using assms by (cases f) (auto split: sum.splits)

lemma default_field_Val: "default_field nm dflt accept (Val b) = ([], Some b)"
  by (simp add: accept_def)

text \<open>The normalization of the chart section is idempotent.\<close>

lemma defaults_and_semantics_idem:
  "defaults_and_semantics (defaults_and_semantics values) = defaults_and_semantics values"
  by (simp add: defaults_and_semantics_def Let_def)

lemma defaults_and_semantics_type:
  "cv_type (defaults_and_semantics values) = cv_type values"
  by (simp add: defaults_and_semantics_def Let_def)

lemma validate_ChartSpec_again:
  assumes "validate_ChartSpec r = Inr m"
  shows "validate_ChartSpec (ChartSpec_dict m) = Inr m"
proof -
  let ?f1 = "required_field ''type'' (enum_member ChartType_value ChartType_members)
               (rch_type r)"
  let ?f2 = "optional_field ''mode'' None (enum_member Mode_value Mode_members) (rch_mode r)"
  let ?f3 = "optional_field ''orientation'' None
               (enum_member Orientation_value Orientation_members) (rch_orientation r)"
  let ?f4 = "optional_field ''barmode'' None (enum_member BarMode_value BarMode_members)
               (rch_barmode r)"
  let ?f5 = "optional_field ''histnorm'' None (enum_member HistNorm_value HistNorm_members)
               (rch_histnorm r)"
  let ?norm = "defaults_and_semantics
                   \<lparr>cv_type = snd ?f1, cv_mode = snd ?f2, cv_orientation = snd ?f3,
                    cv_barmode = snd ?f4, cv_histnorm = snd ?f5\<rparr>"
  from assms obtain ty where ty: "cv_type ?norm = Some ty"
    and m: "m = \<lparr>ch_type = ty, ch_mode = cv_mode ?norm,
                 ch_orientation = cv_orientation ?norm, ch_barmode = cv_barmode ?norm,
                 ch_histnorm = cv_histnorm ?norm\<rparr>"
    by (auto simp: validate_ChartSpec_def Let_def split_beta
        split: list.splits option.splits)
  have again: "\<lparr>cv_type = Some ty, cv_mode = cv_mode ?norm,
                 cv_orientation = cv_orientation ?norm, cv_barmode = cv_barmode ?norm,
                 cv_histnorm = cv_histnorm ?norm\<rparr> = ?norm"
    using ty by simp
  have idem: "defaults_and_semantics ?norm = ?norm"
    by (rule defaults_and_semantics_idem)
  show ?thesis
    unfolding m
    by (simp add: validate_ChartSpec_def ChartSpec_dict_def ChartType_again
        optional_field_opt_raw Mode_again Orientation_again BarMode_again HistNorm_again
        again idem ty Let_def)
qed

lemma validate_PlotlyJSConfig_again:
  assumes "validate_PlotlyJSConfig r = Inr m"
  shows "validate_PlotlyJSConfig (PlotlyJSConfig_dict m) = Inr m"
  by (simp add: validate_PlotlyJSConfig_def PlotlyJSConfig_dict_def default_field_Val
      optional_field_opt_raw accept_def)

lemma const_version_default:
  assumes "default_field ''version'' ''1.0'' const_version f = (es, Some ver)"
  shows "ver = ''1.0''"
  using assms by (cases f) (auto simp: const_version_def split: if_splits)

lemma validate_VizSpec_fields:
  assumes "validate_VizSpec r = Inr m"
  shows "vs_version m = ''1.0''"
    and "\<exists>rc. validate_ChartSpec rc = Inr (vs_chart m)"
    and "\<exists>rd. validate_DataSpec rd = Inr (vs_data m)"
    and "vs_layout m = Some l \<Longrightarrow> \<exists>rl. validate_LayoutSpec rl = Inr l"
    and "vs_plotly_config m = Some c \<Longrightarrow> \<exists>rp. validate_PlotlyJSConfig rp = Inr c"
proof -
  obtain e1 ver where f1:
    "default_field ''version'' ''1.0'' const_version (rv_version r) = (e1, ver)"
    by (cases "default_field ''version'' ''1.0'' const_version (rv_version r)") auto
  obtain e2 chart where f2:
    "required_field ''chart'' validate_ChartSpec (rv_chart r) = (e2, chart)"
    by (cases "required_field ''chart'' validate_ChartSpec (rv_chart r)") auto
  obtain e3 data where f3:
    "required_field ''data'' validate_DataSpec (rv_data r) = (e3, data)"
    by (cases "required_field ''data'' validate_DataSpec (rv_data r)") auto
  obtain e4 layout where f4:
    "optional_field ''layout'' None validate_LayoutSpec (rv_layout r) = (e4, layout)"
    by (cases "optional_field ''layout'' None validate_LayoutSpec (rv_layout r)") auto
  obtain e5 cfg where f5:
    "optional_field ''plotly_config'' None validate_PlotlyJSConfig (rv_plotly_config r)
       = (e5, cfg)"
    by (cases "optional_field ''plotly_config'' None validate_PlotlyJSConfig
                 (rv_plotly_config r)") auto
  from assms have parts: "ver = Some (vs_version m)" "chart = Some (vs_chart m)"
    "data = Some (vs_data m)" "layout = vs_layout m" "cfg = vs_plotly_config m"
    by (auto simp: validate_VizSpec_def Let_def f1 f2 f3 f4 f5
        split: sum.splits pyexc.splits list.splits option.splits)
  show "vs_version m = ''1.0''"
    using const_version_default [of "rv_version r" e1 "vs_version m"] f1 parts(1) by simp
  show "\<exists>rc. validate_ChartSpec rc = Inr (vs_chart m)"
    using required_field_Some [of "''chart''" validate_ChartSpec "rv_chart r" e2 "vs_chart m"]
      f2 parts(2) by auto
  show "\<exists>rd. validate_DataSpec rd = Inr (vs_data m)"
    using required_field_Some [of "''data''" validate_DataSpec "rv_data r" e3 "vs_data m"]
      f3 parts(3) by auto
  show "\<exists>rl. validate_LayoutSpec rl = Inr l" if "vs_layout m = Some l"
    using optional_field_Some [of "''layout''" validate_LayoutSpec "rv_layout r" e4 l]
      f4 parts(4) that by auto
  show "\<exists>rp. validate_PlotlyJSConfig rp = Inr c" if "vs_plotly_config m = Some c"
    using optional_field_Some
      [of "''plotly_config''" validate_PlotlyJSConfig "rv_plotly_config r" e5 c]
      f5 parts(5) that by auto
qed

text \<open>
  Claim C7: validation is idempotent. For every input that parses and validates to a
  VizSpec, validating the canonical serialized form of that VizSpec succeeds and yields
  the identical VizSpec, through the object parser and, when the decoder reads the
  serialized text back as that object, through the text parser; the normalization of
  the chart section (mode default, reset of orientation and histnorm) is a fixed point
  on its own results.
\<close>

theorem C7_validation_idempotent:
  assumes "validate_VizSpec r = Inr m"
  shows "validate_VizSpec (VizSpec_dict m) = Inr m
         \<and> parse_viz_spec loads (SpecObj (Mapping (VizSpec_dict m))) = Inr m
         \<and> (loads txt = Some (Mapping (VizSpec_dict m)) \<longrightarrow>
              parse_viz_spec loads (SpecStr txt) = Inr m)
         \<and> defaults_and_semantics (defaults_and_semantics values)
             = defaults_and_semantics values"
proof -
  note fields = validate_VizSpec_fields [OF assms]
  have chart: "validate_ChartSpec (ChartSpec_dict (vs_chart m)) = Inr (vs_chart m)"
    using fields(2) validate_ChartSpec_again by blast
  have data: "validate_DataSpec (DataSpec_dict (vs_data m)) = Inr (vs_data m)"
    using fields(3) validate_DataSpec_again by blast
  have layout: "optional_field ''layout'' None validate_LayoutSpec
                  (opt_raw LayoutSpec_dict (vs_layout m)) = ([], vs_layout m)"
    using fields(4) validate_LayoutSpec_again
    by (cases "vs_layout m") (auto simp: opt_raw_def)
  have cfg: "optional_field ''plotly_config'' None validate_PlotlyJSConfig
               (opt_raw PlotlyJSConfig_dict (vs_plotly_config m)) = ([], vs_plotly_config m)"
    using fields(5) validate_PlotlyJSConfig_again
    by (cases "vs_plotly_config m") (auto simp: opt_raw_def)
  have checks: "semantic_checks (Some (vs_chart m)) (Some (vs_data m)) = Inr ()"
    using assms by (rule validate_VizSpec_Inr)
  have again: "validate_VizSpec (VizSpec_dict m) = Inr m"
    by (simp add: validate_VizSpec_def VizSpec_dict_def const_version_def fields(1)
        chart data layout cfg checks)
  then show ?thesis
    by (simp add: parse_viz_spec_def parse_obj_def parse_raw_def reraise_def
        defaults_and_semantics_idem)
qed

text \<open>
  A line chart given without a mode: validation sets the mode to \<open>lines\<close>, and
  validating the serialized result, which now carries the mode, changes nothing.
\<close>

theorem C7_validation_idempotent_witness:
  "validate_VizSpec (raw_spec ''line'' heatmap_long_raw)
     = Inr ((model_spec CT_line heatmap_long)
              \<lparr>vs_chart := (vs_chart (model_spec CT_line heatmap_long))
                              \<lparr>ch_mode := Some Mode_lines\<rparr>\<rparr>)
   \<and> validate_VizSpec
        (VizSpec_dict ((model_spec CT_line heatmap_long)
              \<lparr>vs_chart := (vs_chart (model_spec CT_line heatmap_long))
                              \<lparr>ch_mode := Some Mode_lines\<rparr>\<rparr>))
     = Inr ((model_spec CT_line heatmap_long)
              \<lparr>vs_chart := (vs_chart (model_spec CT_line heatmap_long))
                              \<lparr>ch_mode := Some Mode_lines\<rparr>\<rparr>)"
proof -
  have h: "validate_VizSpec
             (raw_spec ''line'' heatmap_long_raw)
     = Inr ((model_spec CT_line heatmap_long)
              \<lparr>vs_chart := (vs_chart (model_spec CT_line heatmap_long))
                              \<lparr>ch_mode := Some Mode_lines\<rparr>\<rparr>)"
    by code_simp
  show ?thesis
    using C7_validation_idempotent [OF h, of example_loads "''{}''"] h
    by blast
qed

subsection \<open>The heatmap pivot\<close>






text \<open>
  With \<open>x\<close> and \<open>y\<close> naming the same column (here \<open>store\<close>, whose values are all
  different), the duplicate check passes and \<open>df.pivot\<close> raises its \<open>ValueError\<close>.
\<close>

lemma heatmap_same_column_raises:
  "compile_figure example_lib [example_frame] 0
     (SpecModel (model_spec CT_heatmap (heatmap_long\<lparr>d_y := Some (YStr ''store'')\<rparr>)))
   = ([example_frame], Inl (Uncaught (ValueError (NameOccursMultipleTimes ''store''))))"
  by code_simp




subsection \<open>One trace per group\<close>















































end
